theory Spec2Isabelle
  imports Main
begin

section \<open>Values, exceptions and strings\<close>

text \<open>
  A Python \<open>str\<close> is modelled as a \<open>string\<close> whose characters are the code points
  0 to 255, \<open>of_char c\<close> being the code point of \<open>c\<close>; \<open>length\<close> is then Python's
  \<open>len\<close>. On this range the character classes of the interpreter are fixed and are
  written out below.

  A value that arrives in a JSON body is a \<open>pyval\<close>; a Python \<open>dict\<close> is an association
  list in insertion order. JSON numbers with a fraction are not represented: every test
  the validators make treats them like the other values that are not strings.
\<close>

datatype pyval =
    PyNone
  | PyBool bool
  | PyInt int
  | PyStr string
  | PyList "pyval list"
  | PyDict "(string \<times> pyval) list"

text \<open>
  The exceptions that occur in the three modules. \<open>ValidationError\<close> derives from
  \<open>Exception\<close>, not from \<open>ValueError\<close>; \<open>IntegrityError\<close> and \<open>OperationalError\<close>
  derive from \<open>sqlite3.Error\<close>, \<open>OverflowError\<close> does not. The argument is what
  \<open>str(e)\<close> returns.
\<close>

datatype exn =
    ValidationError string
  | ValueError string
  | IntegrityError string
  | OperationalError string
  | AttributeError string
  | KeyError string
  | OverflowError string
  | BadRequest string

text \<open>
  \<open>str.isspace\<close> on one character, which is also what \<open>str.strip()\<close> removes and what
  \<open>\s\<close> matches in a \<open>str\<close> pattern: tab, line feed, vertical tab, form feed, carriage
  return, the four separators 28 to 31, the space, NEL (133) and the no-break space (160).
\<close>

definition py_isspace :: "char \<Rightarrow> bool" where
  "py_isspace c =
     (let n = (of_char c :: nat)
      in (9 \<le> n \<and> n \<le> 13) \<or> (28 \<le> n \<and> n \<le> 32) \<or> n = 133 \<or> n = 160)"

text \<open>The class \<open>[a-zA-Z]\<close>.\<close>

definition ascii_letter :: "char \<Rightarrow> bool" where
  "ascii_letter c =
     (let n = (of_char c :: nat)
      in (65 \<le> n \<and> n \<le> 90) \<or> (97 \<le> n \<and> n \<le> 122))"

text \<open>The class \<open>\d\<close>: the decimal digits, which below 256 are \<open>0\<close> to \<open>9\<close>.\<close>

definition re_digit :: "char \<Rightarrow> bool" where
  "re_digit c = (let n = (of_char c :: nat) in 48 \<le> n \<and> n \<le> 57)"

text \<open>\<open>str.strip()\<close>: whitespace is removed at both ends.\<close>

definition py_strip :: "string \<Rightarrow> string" where
  "py_strip s = rev (dropWhile py_isspace (rev (dropWhile py_isspace s)))"

text \<open>
  \<open>str.lower()\<close> on one character: \<open>A\<close> to \<open>Z\<close> and the capital letters 192 to 222
  (without the multiplication sign 215) move up by 32.
\<close>

definition py_lower_char :: "char \<Rightarrow> char" where
  "py_lower_char c =
     (let n = (of_char c :: nat)
      in if (65 \<le> n \<and> n \<le> 90) \<or> (192 \<le> n \<and> n \<le> 222 \<and> n \<noteq> 215)
         then char_of (n + 32) else c)"

definition py_lower :: "string \<Rightarrow> string" where
  "py_lower s = map py_lower_char s"

section \<open>validators.py\<close>

text \<open>
  The class \<open>[a-zA-Z\s\-']\<close> and the match of \<open>^[a-zA-Z\s\-']+$\<close> by \<open>re.match\<close>.
  Without \<open>re.MULTILINE\<close> the anchor \<open>$\<close> holds at the end of the string and also just
  before a line feed that ends the string.
\<close>

definition name_char :: "char \<Rightarrow> bool" where
  "name_char c = (ascii_letter c \<or> py_isspace c \<or> c = CHR ''-'' \<or> c = CHR 0x27)"

definition name_pattern_match :: "string \<Rightarrow> bool" where
  "name_pattern_match s =
     ((s \<noteq> [] \<and> list_all name_char s)
      \<or> (s \<noteq> [] \<and> last s = CHR 0x0A \<and> butlast s \<noteq> [] \<and> list_all name_char (butlast s)))"

definition validate_name :: "pyval \<Rightarrow> exn + string" where
  "validate_name v =
     (case v of
        PyStr s \<Rightarrow>
          if s = [] then Inl (ValidationError ''Name is required and must be a string'')
          else
            let name = py_strip s in
            if length name < 2
              then Inl (ValidationError ''Name must be at least 2 characters long'')
            else if length name > 100
              then Inl (ValidationError ''Name must be less than 100 characters'')
            else if \<not> name_pattern_match name
              then Inl (ValidationError
                ''Name can only contain letters, spaces, hyphens, and apostrophes'')
            else Inr name
      | _ \<Rightarrow> Inl (ValidationError ''Name is required and must be a string''))"

text \<open>\<open>re.search(r"[a-zA-Z]", s)\<close> and \<open>re.search(r"\d", s)\<close> find a match anywhere.\<close>

definition validate_password :: "pyval \<Rightarrow> exn + string" where
  "validate_password v =
     (case v of
        PyStr s \<Rightarrow>
          if s = [] then Inl (ValidationError ''Password is required and must be a string'')
          else if length s < 8
            then Inl (ValidationError ''Password must be at least 8 characters long'')
          else if length s > 128
            then Inl (ValidationError ''Password must be less than 128 characters'')
          else if \<not> list_ex ascii_letter s
            then Inl (ValidationError ''Password must contain at least one letter'')
          else if \<not> list_ex re_digit s
            then Inl (ValidationError ''Password must contain at least one number'')
          else Inr s
      | _ \<Rightarrow> Inl (ValidationError ''Password is required and must be a string''))"

text \<open>
  \<open>int(s)\<close> on a \<open>str\<close>, base 10. The interpreter first turns every whitespace
  character from 127 on into a space, then reads: whitespace of the C locale (9 to 13
  and the space), one optional sign, digits in which single underscores may stand
  between two digits, whitespace, end of string. Anything else is a \<open>ValueError\<close>.
  So is a literal with more digits than \<open>sys.get_int_max_str_digits()\<close>, which is 4300
  unless the interpreter is configured otherwise; leading zeros count, underscores do
  not. The digits are counted once they are read, before the rest of the string is
  looked at. Of the message of this error, which names the number of digits found, only
  the beginning is kept.
\<close>

definition int_max_str_digits :: nat where
  "int_max_str_digits = 4300"

definition int_space :: "char \<Rightarrow> bool" where
  "int_space c =
     (let n = (of_char c :: nat)
      in (9 \<le> n \<and> n \<le> 13) \<or> n = 32 \<or> n = 133 \<or> n = 160)"

definition digit_or_underscore :: "char \<Rightarrow> bool" where
  "digit_or_underscore c = (re_digit c \<or> c = CHR ''_'')"

fun double_underscore :: "string \<Rightarrow> bool" where
  "double_underscore (a # b # cs) =
     ((a = CHR ''_'' \<and> b = CHR ''_'') \<or> double_underscore (b # cs))"
| "double_underscore _ = False"

definition digits_value :: "string \<Rightarrow> nat" where
  "digits_value ds = foldl (\<lambda>acc c. 10 * acc + (of_char c - 48)) 0 ds"

definition int_sign :: "string \<Rightarrow> bool \<times> string" where
  "int_sign s =
     (case s of
        [] \<Rightarrow> (False, [])
      | c # cs \<Rightarrow>
          if c = CHR ''+'' then (False, cs)
          else if c = CHR ''-'' then (True, cs)
          else (False, s))"

definition py_int :: "string \<Rightarrow> exn + int" where
  "py_int s =
     (let (neg, s2) = int_sign (dropWhile int_space s);
          body = takeWhile digit_or_underscore s2;
          rest = dropWhile digit_or_underscore s2;
          digits = filter re_digit body
      in if body = [] \<or> hd body = CHR ''_'' \<or> last body = CHR ''_''
            \<or> double_underscore body
           then Inl (ValueError ''invalid literal for int() with base 10'')
         else if length digits > int_max_str_digits
           then Inl (ValueError ''Exceeds the limit (4300 digits) for integer string conversion'')
         else if dropWhile int_space rest \<noteq> []
           then Inl (ValueError ''invalid literal for int() with base 10'')
         else
           let n = int (digits_value digits)
           in Inr (if neg then - n else n))"

text \<open>
  The \<open>try\<close> block of \<open>validate_user_id\<close> with its handler: only a \<open>ValueError\<close> is
  caught and replaced, every other exception of the block passes.
\<close>

definition validate_user_id :: "string \<Rightarrow> exn + int" where
  "validate_user_id user_id =
     (if user_id = [] then Inl (ValidationError ''User ID is required'')
      else
        let attempt =
          (case py_int user_id of
             Inl e \<Rightarrow> Inl e
           | Inr user_id_int \<Rightarrow>
               if user_id_int \<le> 0
                 then Inl (ValidationError ''User ID must be a positive integer'')
               else Inr user_id_int)
        in case attempt of
             Inl (ValueError m) \<Rightarrow> Inl (ValidationError ''User ID must be a valid integer'')
           | other \<Rightarrow> other)"

definition validate_search_name :: "pyval \<Rightarrow> exn + string" where
  "validate_search_name v =
     (case v of
        PyStr s \<Rightarrow>
          if s = []
            then Inl (ValidationError ''Search name is required and must be a string'')
          else
            let name = py_strip s in
            if length name < 1
              then Inl (ValidationError ''Search name cannot be empty'')
            else if length name > 50
              then Inl (ValidationError ''Search name must be less than 50 characters'')
            else if \<not> name_pattern_match name
              then Inl (ValidationError
                ''Search name can only contain letters, spaces, hyphens, and apostrophes'')
            else Inr name
      | _ \<Rightarrow> Inl (ValidationError ''Search name is required and must be a string''))"

text \<open>
  What lies outside the three modules is a parameter of the model, gathered in one
  record: the function \<open>validate_email\<close> of the package \<open>email_validator\<close> followed by
  \<open>.normalized\<close> (\<open>Inl\<close> carries the text of its \<open>EmailNotValidError\<close>), \<open>bcrypt.hashpw\<close>
  on the encoded password with the salt that \<open>bcrypt.gensalt\<close> draws for this call
  (\<open>Inl\<close> carries the text of the \<open>ValueError\<close> with which the encoding or the library
  refuses a password, as \<open>bcrypt\<close> from 5.0.0 on refuses one of more than 72 bytes),
  \<open>bcrypt.checkpw\<close>, the two clocks, and whether the database file can be opened.
\<close>

record env =
  lib_validate_email :: "string \<Rightarrow> string + string"
  hashpw :: "string \<Rightarrow> string + string"
  checkpw :: "string \<Rightarrow> string \<Rightarrow> exn + bool"
  current_timestamp :: string
  now_isoformat :: string
  sqlite_fault :: "string option"

definition validate_email :: "env \<Rightarrow> pyval \<Rightarrow> exn + string" where
  "validate_email E v =
     (case v of
        PyStr s \<Rightarrow>
          if s = [] then Inl (ValidationError ''Email is required and must be a string'')
          else
            (case lib_validate_email E (py_lower (py_strip s)) of
               Inl reason \<Rightarrow> Inl (ValidationError (''Invalid email format: '' @ reason))
             | Inr normalized \<Rightarrow> Inr normalized)
      | _ \<Rightarrow> Inl (ValidationError ''Email is required and must be a string''))"

text \<open>\<open>data[k]\<close> on a dict, and the first of a list of fields that the dict lacks.\<close>

definition dict_get :: "(string \<times> pyval) list \<Rightarrow> string \<Rightarrow> exn + pyval" where
  "dict_get d k = (case map_of d k of None \<Rightarrow> Inl (KeyError k) | Some v \<Rightarrow> Inr v)"

fun first_missing :: "string list \<Rightarrow> (string \<times> pyval) list \<Rightarrow> string option" where
  "first_missing [] d = None"
| "first_missing (f # fs) d = (if map_of d f = None then Some f else first_missing fs d)"

record create_data =
  cd_name :: string
  cd_email :: string
  cd_password :: string

definition validate_create_user_data :: "env \<Rightarrow> pyval \<Rightarrow> exn + create_data" where
  "validate_create_user_data E data =
     (case data of
        PyDict d \<Rightarrow>
          (case first_missing [''name'', ''email'', ''password''] d of
             Some field \<Rightarrow> Inl (ValidationError (''Missing required field: '' @ field))
           | None \<Rightarrow>
               (case dict_get d ''name'' of Inl e \<Rightarrow> Inl e | Inr vn \<Rightarrow>
                case validate_name vn of Inl e \<Rightarrow> Inl e | Inr name \<Rightarrow>
                case dict_get d ''email'' of Inl e \<Rightarrow> Inl e | Inr ve \<Rightarrow>
                case validate_email E ve of Inl e \<Rightarrow> Inl e | Inr email \<Rightarrow>
                case dict_get d ''password'' of Inl e \<Rightarrow> Inl e | Inr vp \<Rightarrow>
                case validate_password vp of Inl e \<Rightarrow> Inl e | Inr password \<Rightarrow>
                  Inr \<lparr>cd_name = name, cd_email = email, cd_password = password\<rparr>))
      | _ \<Rightarrow> Inl (ValidationError ''Request data must be a JSON object''))"

text \<open>
  The validated update is a dict with at most the keys \<open>name\<close> and \<open>email\<close>; the pair
  holds what \<open>validated_data.get\<close> returns for each.
\<close>

definition validate_update_user_data ::
    "env \<Rightarrow> pyval \<Rightarrow> exn + (string option \<times> string option)" where
  "validate_update_user_data E data =
     (case data of
        PyDict d \<Rightarrow>
          (case (case map_of d ''name'' of
                   None \<Rightarrow> Inr None
                 | Some vn \<Rightarrow>
                     (case validate_name vn of Inl e \<Rightarrow> Inl e | Inr n \<Rightarrow> Inr (Some n))) of
             Inl e \<Rightarrow> Inl e
           | Inr name \<Rightarrow>
               (case (case map_of d ''email'' of
                        None \<Rightarrow> Inr None
                      | Some ve \<Rightarrow>
                          (case validate_email E ve of
                             Inl e \<Rightarrow> Inl e | Inr m \<Rightarrow> Inr (Some m))) of
                  Inl e \<Rightarrow> Inl e
                | Inr email \<Rightarrow>
                    if name = None \<and> email = None
                      then Inl (ValidationError
                        ''At least one field (name or email) must be provided for update'')
                    else Inr (name, email)))
      | _ \<Rightarrow> Inl (ValidationError ''Request data must be a JSON object''))"

text \<open>The password of a login is handed on as it came, whatever its type.\<close>

definition validate_login_data :: "env \<Rightarrow> pyval \<Rightarrow> exn + (string \<times> pyval)" where
  "validate_login_data E data =
     (case data of
        PyDict d \<Rightarrow>
          if map_of d ''email'' = None
            then Inl (ValidationError ''Email is required for login'')
          else if map_of d ''password'' = None
            then Inl (ValidationError ''Password is required for login'')
          else
            (case dict_get d ''email'' of Inl e \<Rightarrow> Inl e | Inr ve \<Rightarrow>
             case validate_email E ve of Inl e \<Rightarrow> Inl e | Inr email \<Rightarrow>
             case dict_get d ''password'' of Inl e \<Rightarrow> Inl e | Inr password \<Rightarrow>
               Inr (email, password))
      | _ \<Rightarrow> Inl (ValidationError ''Request data must be a JSON object''))"

section \<open>database.py\<close>

text \<open>
  The table \<open>users\<close>: one record per row, in rowid order, and the counter that
  \<open>AUTOINCREMENT\<close> keeps in \<open>sqlite_sequence\<close>. The columns \<open>name\<close>, \<open>email\<close> and
  \<open>password_hash\<close> are \<open>NOT NULL\<close>, \<open>email\<close> is \<open>UNIQUE\<close>, \<open>id\<close> is the primary key,
  so a table holds at most one row for an id.
\<close>

record user_row =
  u_id :: int
  u_name :: string
  u_email :: string
  u_password_hash :: string
  u_created_at :: string
  u_updated_at :: string

record store =
  users :: "user_row list"
  sequence :: int

text \<open>\<open>get_connection\<close>: opening the file raises an \<open>sqlite3.Error\<close> or succeeds.\<close>

definition get_connection :: "env \<Rightarrow> exn + unit" where
  "get_connection E =
     (case sqlite_fault E of None \<Rightarrow> Inr () | Some m \<Rightarrow> Inl (OperationalError m))"

text \<open>
  A Python \<open>int\<close> that is a parameter of a statement is bound as a 64-bit integer;
  outside that range \<open>sqlite3\<close> raises \<open>OverflowError\<close> when the statement is executed.
\<close>

definition sqlite_int :: "int \<Rightarrow> exn + int" where
  "sqlite_int i =
     (if - (2 ^ 63) \<le> i \<and> i < 2 ^ 63 then Inr i
      else Inl (OverflowError ''Python int too large to convert to SQLite INTEGER''))"

text \<open>\<open>dict(row)\<close> for \<open>SELECT *\<close> and for the five columns that two queries name.\<close>

definition row_dict :: "user_row \<Rightarrow> (string \<times> pyval) list" where
  "row_dict r =
     [(''id'', PyInt (u_id r)), (''name'', PyStr (u_name r)), (''email'', PyStr (u_email r)),
      (''password_hash'', PyStr (u_password_hash r)),
      (''created_at'', PyStr (u_created_at r)), (''updated_at'', PyStr (u_updated_at r))]"

definition row_dict_public :: "user_row \<Rightarrow> (string \<times> pyval) list" where
  "row_dict_public r =
     [(''id'', PyInt (u_id r)), (''name'', PyStr (u_name r)), (''email'', PyStr (u_email r)),
      (''created_at'', PyStr (u_created_at r)), (''updated_at'', PyStr (u_updated_at r))]"

text \<open>
  The statement \<open>INSERT INTO users (name, email, password_hash) VALUES (?, ?, ?)\<close>.
  A parameter that is \<open>None\<close> is bound as \<open>NULL\<close>. The \<open>NOT NULL\<close> constraints are
  checked before the \<open>UNIQUE\<close> one; each violation is an \<open>sqlite3.IntegrityError\<close>.
  The new rowid is one more than the largest rowid the table ever held (a table that
  has used up the 64-bit rowids is not modelled); the result is \<open>cursor.lastrowid\<close> with
  the table after the commit.
\<close>

definition next_rowid :: "store \<Rightarrow> int" where
  "next_rowid db = 1 + foldr max (map u_id (users db)) (sequence db)"

definition sql_insert_user ::
    "env \<Rightarrow> store \<Rightarrow> string option \<Rightarrow> string option \<Rightarrow> string option \<Rightarrow> exn + (int \<times> store)" where
  "sql_insert_user E db name email password_hash =
     (case name of
        None \<Rightarrow> Inl (IntegrityError ''NOT NULL constraint failed: users.name'')
      | Some n \<Rightarrow>
     (case email of
        None \<Rightarrow> Inl (IntegrityError ''NOT NULL constraint failed: users.email'')
      | Some e \<Rightarrow>
     (case password_hash of
        None \<Rightarrow> Inl (IntegrityError ''NOT NULL constraint failed: users.password_hash'')
      | Some h \<Rightarrow>
          if list_ex (\<lambda>r. u_email r = e) (users db)
            then Inl (IntegrityError ''UNIQUE constraint failed: users.email'')
          else
            let i = next_rowid db;
                r = \<lparr>u_id = i, u_name = n, u_email = e, u_password_hash = h,
                     u_created_at = current_timestamp E, u_updated_at = current_timestamp E\<rparr>
            in Inr (i, db\<lparr>users := users db @ [r], sequence := i\<rparr>))))"

definition hash_password :: "env \<Rightarrow> string \<Rightarrow> exn + string" where
  "hash_password E password =
     (case hashpw E password of Inl m \<Rightarrow> Inl (ValueError m) | Inr h \<Rightarrow> Inr h)"

text \<open>
  \<open>verify_password\<close> calls \<open>.encode\<close> on both arguments, which only a \<open>str\<close> has.
\<close>

definition verify_password :: "env \<Rightarrow> pyval \<Rightarrow> pyval \<Rightarrow> exn + bool" where
  "verify_password E password hashed_password =
     (case password of
        PyStr p \<Rightarrow>
          (case hashed_password of
             PyStr h \<Rightarrow> checkpw E p h
           | _ \<Rightarrow> Inl (AttributeError ''object has no attribute 'encode' ''))
      | _ \<Rightarrow> Inl (AttributeError ''object has no attribute 'encode' ''))"

text \<open>
  \<open>create_user\<close>. The password is hashed inside the \<open>try\<close>, before the \<open>INSERT\<close>. An
  exception leaves the table as it was. The first handler turns every
  \<open>IntegrityError\<close> into the \<open>ValueError\<close>; the second logs and raises again; an
  exception that is no \<open>sqlite3.Error\<close>, as the one of \<open>hash_password\<close>, passes both.
\<close>

definition create_user ::
    "env \<Rightarrow> store \<Rightarrow> string option \<Rightarrow> string option \<Rightarrow> string
       \<Rightarrow> exn + ((string \<times> pyval) list \<times> store)" where
  "create_user E db name email password =
     (let attempt =
        (case get_connection E of
           Inl e \<Rightarrow> Inl e
         | Inr conn \<Rightarrow>
             (case hash_password E password of
                Inl e \<Rightarrow> Inl e
              | Inr password_hash \<Rightarrow>
                  (case sql_insert_user E db name email (Some password_hash) of
                     Inl e \<Rightarrow> Inl e
                   | Inr (user_id, db') \<Rightarrow>
                       Inr ([(''id'', PyInt user_id),
                             (''name'', (case name of None \<Rightarrow> PyNone | Some n \<Rightarrow> PyStr n)),
                             (''email'', (case email of None \<Rightarrow> PyNone | Some m \<Rightarrow> PyStr m)),
                             (''created_at'', PyStr (now_isoformat E))], db'))))
      in case attempt of
           Inl (IntegrityError m) \<Rightarrow> Inl (ValueError ''Email already exists'')
         | other \<Rightarrow> other)"

definition get_user_by_id ::
    "env \<Rightarrow> store \<Rightarrow> int \<Rightarrow> exn + (string \<times> pyval) list option" where
  "get_user_by_id E db user_id =
     (case get_connection E of
        Inl e \<Rightarrow> Inl e
      | Inr conn \<Rightarrow>
          (case sqlite_int user_id of
             Inl e \<Rightarrow> Inl e
           | Inr i \<Rightarrow>
               (case find (\<lambda>r. u_id r = i) (users db) of
                  Some user \<Rightarrow> Inr (Some (row_dict user))
                | None \<Rightarrow> Inr None)))"

definition get_user_by_email ::
    "env \<Rightarrow> store \<Rightarrow> string \<Rightarrow> exn + (string \<times> pyval) list option" where
  "get_user_by_email E db email =
     (case get_connection E of
        Inl e \<Rightarrow> Inl e
      | Inr conn \<Rightarrow>
          (case find (\<lambda>r. u_email r = email) (users db) of
             Some user \<Rightarrow> Inr (Some (row_dict user))
           | None \<Rightarrow> Inr None))"

definition get_all_users :: "env \<Rightarrow> store \<Rightarrow> exn + (string \<times> pyval) list list" where
  "get_all_users E db =
     (case get_connection E of
        Inl e \<Rightarrow> Inl e
      | Inr conn \<Rightarrow> Inr (map row_dict_public (users db)))"

text \<open>
  The statement \<open>UPDATE users SET ..., updated_at = CURRENT_TIMESTAMP WHERE id = ?\<close> with
  the fields that are not \<open>None\<close>. It fails when the row exists and its new email is the
  email of another row; the result is \<open>cursor.rowcount\<close> with the table after the commit.
\<close>

definition sql_update_user ::
    "env \<Rightarrow> store \<Rightarrow> int \<Rightarrow> string option \<Rightarrow> string option \<Rightarrow> exn + (nat \<times> store)" where
  "sql_update_user E db user_id name email =
     (case sqlite_int user_id of
        Inl e \<Rightarrow> Inl e
      | Inr i \<Rightarrow>
          let matched = filter (\<lambda>r. u_id r = i) (users db);
              clash = (case email of
                         None \<Rightarrow> False
                       | Some e \<Rightarrow> list_ex (\<lambda>r. u_id r \<noteq> i \<and> u_email r = e) (users db))
          in if matched \<noteq> [] \<and> clash
               then Inl (IntegrityError ''UNIQUE constraint failed: users.email'')
             else
               Inr (length matched,
                    db\<lparr>users :=
                         map (\<lambda>r. if u_id r = i
                                   then r\<lparr>u_name := (case name of None \<Rightarrow> u_name r | Some n \<Rightarrow> n),
                                          u_email := (case email of None \<Rightarrow> u_email r | Some e \<Rightarrow> e),
                                          u_updated_at := current_timestamp E\<rparr>
                                   else r)
                           (users db)\<rparr>))"

definition update_user ::
    "env \<Rightarrow> store \<Rightarrow> int \<Rightarrow> string option \<Rightarrow> string option
       \<Rightarrow> exn + ((string \<times> pyval) list option \<times> store)" where
  "update_user E db user_id name email =
     (let attempt =
        (case get_connection E of
           Inl e \<Rightarrow> Inl e
         | Inr conn \<Rightarrow>
             if name = None \<and> email = None then Inr (None, db)
             else
               (case sql_update_user E db user_id name email of
                  Inl e \<Rightarrow> Inl e
                | Inr (rowcount, db') \<Rightarrow>
                    if rowcount > 0 then
                      (case get_user_by_id E db' user_id of
                         Inl e \<Rightarrow> Inl e
                       | Inr user \<Rightarrow> Inr (user, db'))
                    else Inr (None, db')))
      in case attempt of
           Inl (IntegrityError m) \<Rightarrow> Inl (ValueError ''Email already exists'')
         | other \<Rightarrow> other)"

definition delete_user :: "env \<Rightarrow> store \<Rightarrow> int \<Rightarrow> exn + (bool \<times> store)" where
  "delete_user E db user_id =
     (case get_connection E of
        Inl e \<Rightarrow> Inl e
      | Inr conn \<Rightarrow>
          (case sqlite_int user_id of
             Inl e \<Rightarrow> Inl e
           | Inr i \<Rightarrow>
               let rowcount = length (filter (\<lambda>r. u_id r = i) (users db));
                   db' = db\<lparr>users := filter (\<lambda>r. u_id r \<noteq> i) (users db)\<rparr>
               in Inr (rowcount > 0, db')))"

text \<open>
  The operator \<open>LIKE\<close> of SQLite: \<open>%\<close> in the pattern stands for any run of characters,
  \<open>_\<close> for any one character, and every other character for itself, where the letters
  \<open>A\<close> to \<open>Z\<close> and \<open>a\<close> to \<open>z\<close> are compared without regard to case.
\<close>

definition ascii_fold :: "char \<Rightarrow> char" where
  "ascii_fold c =
     (let n = (of_char c :: nat) in if 65 \<le> n \<and> n \<le> 90 then char_of (n + 32) else c)"

fun sql_like :: "string \<Rightarrow> string \<Rightarrow> bool" where
  "sql_like [] s = (s = [])"
| "sql_like (p # ps) [] = (p = CHR ''%'' \<and> sql_like ps [])"
| "sql_like (p # ps) (c # cs) =
     (if p = CHR ''%'' then sql_like ps (c # cs) \<or> sql_like (p # ps) cs
      else (p = CHR ''_'' \<or> ascii_fold p = ascii_fold c) \<and> sql_like ps cs)"

definition search_users_by_name ::
    "env \<Rightarrow> store \<Rightarrow> string \<Rightarrow> exn + (string \<times> pyval) list list" where
  "search_users_by_name E db name =
     (case get_connection E of
        Inl e \<Rightarrow> Inl e
      | Inr conn \<Rightarrow>
          Inr (map row_dict_public
                 (filter (\<lambda>r. sql_like (''%'' @ name @ ''%'') (u_name r)) (users db))))"

text \<open>
  \<open>authenticate_user\<close>. \<open>user and ...\<close> does not verify when no row was found; the
  handler of the \<open>try\<close> logs and raises again.
\<close>

definition authenticate_user ::
    "env \<Rightarrow> store \<Rightarrow> string \<Rightarrow> pyval \<Rightarrow> exn + (string \<times> pyval) list option" where
  "authenticate_user E db email password =
     (case get_user_by_email E db email of
        Inl e \<Rightarrow> Inl e
      | Inr None \<Rightarrow> Inr None
      | Inr (Some user) \<Rightarrow>
          if user = [] then Inr None
          else
            (case dict_get user ''password_hash'' of Inl e \<Rightarrow> Inl e | Inr h \<Rightarrow>
            (case verify_password E password h of Inl e \<Rightarrow> Inl e | Inr ok \<Rightarrow>
               if ok then
                 (case dict_get user ''id'' of Inl e \<Rightarrow> Inl e | Inr v_id \<Rightarrow>
                 (case dict_get user ''name'' of Inl e \<Rightarrow> Inl e | Inr v_name \<Rightarrow>
                 (case dict_get user ''email'' of Inl e \<Rightarrow> Inl e | Inr v_email \<Rightarrow>
                 (case dict_get user ''created_at'' of Inl e \<Rightarrow> Inl e | Inr v_created \<Rightarrow>
                    Inr (Some [(''id'', v_id), (''name'', v_name), (''email'', v_email),
                               (''created_at'', v_created)])))))
               else Inr None)))"

section \<open>app.py\<close>

text \<open>
  A response is the JSON body with the status code; a view that returns only a dict
  answers with 200. Of a request the views read whether its content type is JSON and
  the parsed body: \<open>get_json\<close> raises \<open>BadRequest\<close> when the body cannot be parsed.
\<close>

type_synonym response = "pyval \<times> nat"

record request =
  is_json :: bool
  json :: "pyval option"

definition get_json :: "request \<Rightarrow> exn + pyval" where
  "get_json req =
     (case json req of
        None \<Rightarrow> Inl (BadRequest ''Failed to decode JSON object'')
      | Some v \<Rightarrow> Inr v)"

definition create_error_response :: "string \<Rightarrow> nat \<Rightarrow> response" where
  "create_error_response message status_code =
     (PyDict [(''error'', PyStr message), (''status'', PyStr ''error'')], status_code)"

definition create_success_response :: "pyval \<Rightarrow> string \<Rightarrow> pyval" where
  "create_success_response data message =
     PyDict ([(''status'', PyStr ''success''), (''message'', PyStr message)]
             @ (if data \<noteq> PyNone then [(''data'', data)] else []))"

text \<open>\<open>d.pop(k, None)\<close> on a dict.\<close>

definition dict_pop :: "(string \<times> pyval) list \<Rightarrow> string \<Rightarrow> (string \<times> pyval) list" where
  "dict_pop d k = filter (\<lambda>kv. fst kv \<noteq> k) d"

definition health_check :: response where
  "health_check = (create_success_response PyNone ''User Management System is running'', 200)"

definition app_get_all_users :: "env \<Rightarrow> store \<Rightarrow> response" where
  "app_get_all_users E db =
     (case get_all_users E db of
        Inr us \<Rightarrow>
          (create_success_response (PyList (map PyDict us)) ''Users retrieved successfully'', 200)
      | Inl e \<Rightarrow> create_error_response ''Failed to retrieve users'' 500)"

definition app_get_user :: "env \<Rightarrow> store \<Rightarrow> string \<Rightarrow> response" where
  "app_get_user E db user_id =
     (let attempt =
        (case validate_user_id user_id of
           Inl e \<Rightarrow> Inl e
         | Inr validated_user_id \<Rightarrow>
             (case get_user_by_id E db validated_user_id of
                Inl e \<Rightarrow> Inl e
              | Inr None \<Rightarrow> Inr (create_error_response ''User not found'' 404)
              | Inr (Some user) \<Rightarrow>
                  if user \<noteq> [] then
                    Inr (create_success_response (PyDict (dict_pop user ''password_hash''))
                           ''User retrieved successfully'', 200)
                  else Inr (create_error_response ''User not found'' 404)))
      in case attempt of
           Inr resp \<Rightarrow> resp
         | Inl (ValidationError m) \<Rightarrow> create_error_response m 400
         | Inl e \<Rightarrow> create_error_response ''Failed to retrieve user'' 500)"

definition app_create_user :: "env \<Rightarrow> store \<Rightarrow> request \<Rightarrow> response \<times> store" where
  "app_create_user E db req =
     (let attempt =
        (if \<not> is_json req
           then Inr (create_error_response ''Content-Type must be application/json'' 400, db)
         else
           (case get_json req of
              Inl e \<Rightarrow> Inl e
            | Inr data \<Rightarrow>
                (case validate_create_user_data E data of
                   Inl e \<Rightarrow> Inl e
                 | Inr validated_data \<Rightarrow>
                     (case create_user E db (Some (cd_name validated_data))
                             (Some (cd_email validated_data)) (cd_password validated_data) of
                        Inl e \<Rightarrow> Inl e
                      | Inr (user, db') \<Rightarrow>
                          Inr ((create_success_response (PyDict user)
                                  ''User created successfully'', 201), db')))))
      in case attempt of
           Inr out \<Rightarrow> out
         | Inl (ValidationError m) \<Rightarrow> (create_error_response m 400, db)
         | Inl (ValueError m) \<Rightarrow> (create_error_response m 409, db)
         | Inl e \<Rightarrow> (create_error_response ''Failed to create user'' 500, db))"

definition app_update_user :: "env \<Rightarrow> store \<Rightarrow> string \<Rightarrow> request \<Rightarrow> response \<times> store" where
  "app_update_user E db user_id req =
     (let attempt =
        (case validate_user_id user_id of
           Inl e \<Rightarrow> Inl e
         | Inr validated_user_id \<Rightarrow>
             if \<not> is_json req
               then Inr (create_error_response ''Content-Type must be application/json'' 400, db)
             else
               (case get_json req of
                  Inl e \<Rightarrow> Inl e
                | Inr data \<Rightarrow>
                    (case validate_update_user_data E data of
                       Inl e \<Rightarrow> Inl e
                     | Inr (name, email) \<Rightarrow>
                         (case update_user E db validated_user_id name email of
                            Inl e \<Rightarrow> Inl e
                          | Inr (None, db') \<Rightarrow>
                              Inr (create_error_response ''User not found'' 404, db')
                          | Inr (Some updated_user, db') \<Rightarrow>
                              if updated_user \<noteq> [] then
                                Inr ((create_success_response
                                        (PyDict (dict_pop updated_user ''password_hash''))
                                        ''User updated successfully'', 200), db')
                              else Inr (create_error_response ''User not found'' 404, db')))))
      in case attempt of
           Inr out \<Rightarrow> out
         | Inl (ValidationError m) \<Rightarrow> (create_error_response m 400, db)
         | Inl (ValueError m) \<Rightarrow> (create_error_response m 409, db)
         | Inl e \<Rightarrow> (create_error_response ''Failed to update user'' 500, db))"

definition app_delete_user :: "env \<Rightarrow> store \<Rightarrow> string \<Rightarrow> response \<times> store" where
  "app_delete_user E db user_id =
     (let attempt =
        (case validate_user_id user_id of
           Inl e \<Rightarrow> Inl e
         | Inr validated_user_id \<Rightarrow>
             (case delete_user E db validated_user_id of
                Inl e \<Rightarrow> Inl e
              | Inr (deleted, db') \<Rightarrow>
                  if deleted then
                    Inr ((create_success_response PyNone ''User deleted successfully'', 200), db')
                  else Inr (create_error_response ''User not found'' 404, db')))
      in case attempt of
           Inr out \<Rightarrow> out
         | Inl (ValidationError m) \<Rightarrow> (create_error_response m 400, db)
         | Inl e \<Rightarrow> (create_error_response ''Failed to delete user'' 500, db))"

text \<open>\<open>request.args.get('name')\<close> is \<open>None\<close> or a \<open>str\<close>.\<close>

definition search_users :: "env \<Rightarrow> store \<Rightarrow> string option \<Rightarrow> response" where
  "search_users E db name =
     (let attempt =
        (case name of
           None \<Rightarrow> Inr (create_error_response ''Name parameter is required'' 400)
         | Some n \<Rightarrow>
             if n = [] then Inr (create_error_response ''Name parameter is required'' 400)
             else
               (case validate_search_name (PyStr n) of
                  Inl e \<Rightarrow> Inl e
                | Inr validated_name \<Rightarrow>
                    (case search_users_by_name E db validated_name of
                       Inl e \<Rightarrow> Inl e
                     | Inr us \<Rightarrow>
                         Inr (create_success_response (PyList (map PyDict us))
                                ''Search completed successfully'', 200))))
      in case attempt of
           Inr resp \<Rightarrow> resp
         | Inl (ValidationError m) \<Rightarrow> create_error_response m 400
         | Inl e \<Rightarrow> create_error_response ''Failed to search users'' 500)"

definition login :: "env \<Rightarrow> store \<Rightarrow> request \<Rightarrow> response" where
  "login E db req =
     (let attempt =
        (if \<not> is_json req
           then Inr (create_error_response ''Content-Type must be application/json'' 400)
         else
           (case get_json req of
              Inl e \<Rightarrow> Inl e
            | Inr data \<Rightarrow>
                (case validate_login_data E data of
                   Inl e \<Rightarrow> Inl e
                 | Inr (email, password) \<Rightarrow>
                     (case authenticate_user E db email password of
                        Inl e \<Rightarrow> Inl e
                      | Inr None \<Rightarrow> Inr (create_error_response ''Invalid email or password'' 401)
                      | Inr (Some user) \<Rightarrow>
                          if user \<noteq> [] then
                            Inr (create_success_response (PyDict user) ''Login successful'', 200)
                          else Inr (create_error_response ''Invalid email or password'' 401)))))
      in case attempt of
           Inr resp \<Rightarrow> resp
         | Inl (ValidationError m) \<Rightarrow> create_error_response m 400
         | Inl e \<Rightarrow> create_error_response ''Failed to authenticate user'' 500)"

definition not_found :: response where
  "not_found = create_error_response ''Endpoint not found'' 404"

definition method_not_allowed :: response where
  "method_not_allowed = create_error_response ''Method not allowed'' 405"

definition internal_error :: response where
  "internal_error = create_error_response ''Internal server error'' 500"

text \<open>
  The routes that the decorators register, and the three error handlers that the
  framework calls: for a path without a route, for a method a route does not take, and
  for an exception a view lets through.
\<close>

datatype http_request =
    GET_root
  | GET_users
  | GET_user string
  | POST_users request
  | PUT_user string request
  | DELETE_user string
  | GET_search "string option"
  | POST_login request
  | No_route
  | Wrong_method
  | Uncaught

fun serve :: "env \<Rightarrow> store \<Rightarrow> http_request \<Rightarrow> response \<times> store" where
  "serve E db GET_root = (health_check, db)"
| "serve E db GET_users = (app_get_all_users E db, db)"
| "serve E db (GET_user user_id) = (app_get_user E db user_id, db)"
| "serve E db (POST_users req) = app_create_user E db req"
| "serve E db (PUT_user user_id req) = app_update_user E db user_id req"
| "serve E db (DELETE_user user_id) = app_delete_user E db user_id"
| "serve E db (GET_search name) = (search_users E db name, db)"
| "serve E db (POST_login req) = (login E db req, db)"
| "serve E db No_route = (not_found, db)"
| "serve E db Wrong_method = (method_not_allowed, db)"
| "serve E db Uncaught = (internal_error, db)"

section \<open>Reading a response\<close>

text \<open>
  The user records of a response body are what its \<open>data\<close> entry holds: one dict, or
  the dicts of a list.
\<close>

fun has_key :: "string \<Rightarrow> pyval \<Rightarrow> bool" where
  "has_key k (PyDict d) = (k \<in> set (map fst d))"
| "has_key k _ = False"

fun data_records :: "pyval \<Rightarrow> pyval list" where
  "data_records (PyList xs) = xs"
| "data_records v = [v]"

definition response_records :: "pyval \<Rightarrow> pyval list" where
  "response_records body =
     (case body of
        PyDict d \<Rightarrow> (case map_of d ''data'' of None \<Rightarrow> [] | Some v \<Rightarrow> data_records v)
      | _ \<Rightarrow> [])"

section \<open>An environment and a table for the examples\<close>

text \<open>
  The examples run in an environment whose library functions are simple stand-ins: an
  address is valid when it holds an \<open>@\<close>, a hash is the password behind a fixed prefix.
  In \<open>demo_env\<close> every password is hashed; \<open>bcrypt5_env\<close> differs in refusing a
  password of more than 72 characters, as \<open>bcrypt\<close> 5.0.0 refuses one whose encoding has
  more than 72 bytes. The table holds the three sample users of \<open>init_db.py\<close>.
\<close>

definition demo_env :: env where
  "demo_env =
     \<lparr>lib_validate_email =
        (\<lambda>s. if CHR ''@'' \<in> set s then Inr s
              else Inl ''An email address must have an @-sign.''),
      hashpw = (\<lambda>p. Inr (''$2b$12$'' @ p)),
      checkpw = (\<lambda>p h. Inr (h = ''$2b$12$'' @ p)),
      current_timestamp = ''2024-05-01 10:00:00'',
      now_isoformat = ''2024-05-01T10:00:00.000000'',
      sqlite_fault = None\<rparr>"

definition bcrypt5_env :: env where
  "bcrypt5_env =
     demo_env\<lparr>hashpw :=
       (\<lambda>p. if length p > 72
             then Inl ''password cannot be longer than 72 bytes, truncate manually if necessary''
             else Inr (''$2b$12$'' @ p))\<rparr>"

definition sample_store :: store where
  "sample_store =
     \<lparr>users =
        [\<lparr>u_id = 1, u_name = ''John Doe'', u_email = ''john@example.com'',
          u_password_hash = ''$2b$12$password123'',
          u_created_at = ''2024-04-01 09:00:00'', u_updated_at = ''2024-04-01 09:00:00''\<rparr>,
         \<lparr>u_id = 2, u_name = ''Jane Smith'', u_email = ''jane@example.com'',
          u_password_hash = ''$2b$12$secret456'',
          u_created_at = ''2024-04-01 09:00:00'', u_updated_at = ''2024-04-01 09:00:00''\<rparr>,
         \<lparr>u_id = 3, u_name = ''Bob Johnson'', u_email = ''bob@example.com'',
          u_password_hash = ''$2b$12$qwerty789'',
          u_created_at = ''2024-04-01 09:00:00'', u_updated_at = ''2024-04-01 09:00:00''\<rparr>],
      sequence = 3\<rparr>"

definition json_request :: "pyval \<Rightarrow> request" where
  "json_request v = \<lparr>is_json = True, json = Some v\<rparr>"

section \<open>The specification's reading of a name\<close>

text \<open>
  The specification lets a name hold the characters \<open>[A-Za-z \-']\<close>: letters, the
  space character, hyphen, apostrophe. The next two definitions follow its words, to be
  compared with \<open>validate_name\<close>.
\<close>

definition spec_name_char :: "char \<Rightarrow> bool" where
  "spec_name_char c = (ascii_letter c \<or> c = CHR '' '' \<or> c = CHR ''-'' \<or> c = CHR 0x27)"

definition spec_validate_name_fails :: "pyval \<Rightarrow> bool" where
  "spec_validate_name_fails v =
     (case v of
        PyStr s \<Rightarrow> s = [] \<or> length (py_strip s) < 2 \<or> length (py_strip s) > 100
                   \<or> list_ex (\<lambda>c. \<not> spec_name_char c) (py_strip s)
      | _ \<Rightarrow> True)"

section \<open>The validators\<close>

lemma name_pattern_match_iff: "name_pattern_match s \<longleftrightarrow> s \<noteq> [] \<and> list_all name_char s"
proof (cases "s = []")
  case True
  then show ?thesis by (simp add: name_pattern_match_def)
next
  case False
  have nl: "name_char (CHR 0x0A)" by (simp add: name_char_def py_isspace_def)
  from False have s: "butlast s @ [last s] = s" by simp
  have "list_all name_char s" if "list_all name_char (butlast s)" "last s = CHR 0x0A"
  proof -
    have "list_all name_char (butlast s @ [last s])" using that nl by simp
    then show ?thesis using s by simp
  qed
  then show ?thesis using False by (auto simp: name_pattern_match_def)
qed

text \<open>
  What \<open>validate_name\<close> does: it fails on a value that is not a string; on a string it
  trims whitespace and succeeds, returning the trimmed string, exactly when the trimmed
  length is between 2 and 100 and every character of the trimmed string is a letter
  \<open>A-Z\<close>, \<open>a-z\<close>, a character that \<open>\s\<close> matches, a hyphen or an apostrophe. Every
  failure is a \<open>ValidationError\<close>.
\<close>

lemma validate_name_whitespace_class:
  "(validate_name v = Inr r \<longleftrightarrow>
      (\<exists>s. v = PyStr s \<and> r = py_strip s \<and> 2 \<le> length r \<and> length r \<le> 100
         \<and> (\<forall>c\<in>set r. ascii_letter c \<or> py_isspace c \<or> c = CHR ''-'' \<or> c = CHR 0x27)))
   \<and> (\<forall>e. validate_name v = Inl e \<longrightarrow> (\<exists>m. e = ValidationError m))"
proof (cases v)
  case (PyStr s)
  have e: "py_strip [] = []" by (simp add: py_strip_def)
  show ?thesis
    using PyStr e
    by (auto simp: validate_name_def name_pattern_match_iff list_all_iff name_char_def Let_def)
qed (auto simp: validate_name_def)

text \<open>
  C5 says that \<open>validate_name\<close> fails when a character of the trimmed string is outside
  \<open>[A-Za-z \-']\<close>: letters, the space character, hyphen, apostrophe. The comment and the
  message in \<open>validate_name\<close> say the same: letters, spaces, hyphens and apostrophes. The
  code does not do it: the name \<open>a<TAB>b\<close>, and likewise \<open>a<LF>b\<close>, is returned as it
  is, although by the specification's reading it has to fail.
\<close>

theorem validate_name_accepts_tab:
  "validate_name (PyStr [CHR ''a'', CHR 0x09, CHR ''b'']) = Inr [CHR ''a'', CHR 0x09, CHR ''b'']
   \<and> spec_validate_name_fails (PyStr [CHR ''a'', CHR 0x09, CHR ''b''])
   \<and> validate_name (PyStr [CHR ''a'', CHR 0x0A, CHR ''b'']) = Inr [CHR ''a'', CHR 0x0A, CHR ''b'']
   \<and> spec_validate_name_fails (PyStr [CHR ''a'', CHR 0x0A, CHR ''b''])"
  by (simp add: validate_name_def spec_validate_name_fails_def spec_name_char_def py_strip_def
      py_isspace_def name_pattern_match_def name_char_def ascii_letter_def)

text \<open>
  C6: \<open>validate_password\<close> fails exactly when the value is not a string or is empty, its
  length is below 8 or above 128, it holds no letter \<open>A-Z\<close>, \<open>a-z\<close>, or it holds no
  digit; a success returns the password unchanged and every failure is a
  \<open>ValidationError\<close>. \<open>abc\<close> fails as too short, \<open>abcdefg1\<close> is returned, \<open>12345678\<close>
  fails for want of a letter.
\<close>

theorem validate_password_spec:
  "(isl (validate_password v) \<longleftrightarrow>
      (case v of
         PyStr s \<Rightarrow> s = [] \<or> length s < 8 \<or> length s > 128
                    \<or> \<not> (\<exists>c\<in>set s. ascii_letter c) \<or> \<not> (\<exists>c\<in>set s. re_digit c)
       | _ \<Rightarrow> True))
   \<and> (\<forall>r. validate_password v = Inr r \<longrightarrow> v = PyStr r)
   \<and> (\<forall>e. validate_password v = Inl e \<longrightarrow> (\<exists>m. e = ValidationError m))
   \<and> validate_password (PyStr ''abc'')
       = Inl (ValidationError ''Password must be at least 8 characters long'')
   \<and> validate_password (PyStr ''abcdefg1'') = Inr ''abcdefg1''
   \<and> validate_password (PyStr ''12345678'')
       = Inl (ValidationError ''Password must contain at least one letter'')"
proof -
  have ex: "validate_password (PyStr ''abc'')
       = Inl (ValidationError ''Password must be at least 8 characters long'')
   \<and> validate_password (PyStr ''abcdefg1'') = Inr ''abcdefg1''
   \<and> validate_password (PyStr ''12345678'')
       = Inl (ValidationError ''Password must contain at least one letter'')"
    by (simp add: validate_password_def ascii_letter_def re_digit_def)
  have gen: "(isl (validate_password v) \<longleftrightarrow>
      (case v of
         PyStr s \<Rightarrow> s = [] \<or> length s < 8 \<or> length s > 128
                    \<or> \<not> (\<exists>c\<in>set s. ascii_letter c) \<or> \<not> (\<exists>c\<in>set s. re_digit c)
       | _ \<Rightarrow> True))
   \<and> (\<forall>r. validate_password v = Inr r \<longrightarrow> v = PyStr r)
   \<and> (\<forall>e. validate_password v = Inl e \<longrightarrow> (\<exists>m. e = ValidationError m))"
    by (cases v) (auto simp: validate_password_def list_ex_iff)
  from ex gen show ?thesis by blast
qed

theorem validate_password_spec_witness:
  "isl (validate_password (PyStr ''pass word'')) \<and> \<not> isl (validate_password (PyStr ''passw0rd''))"
  using validate_password_spec [of "PyStr ''pass word''"]
    validate_password_spec [of "PyStr ''passw0rd''"]
  by (simp add: ascii_letter_def re_digit_def)

lemma py_int_raises: "py_int s = Inl e \<Longrightarrow> \<exists>m. e = ValueError m"
  by (auto simp: py_int_def Let_def split: prod.splits if_splits)

text \<open>
  C7: \<open>validate_user_id\<close> fails with a \<open>ValidationError\<close> when the string is empty, when
  \<open>int\<close> does not parse it, and when it parses to a value that is not positive; otherwise
  it returns the parsed integer. The error for a value that is not positive is raised
  inside the \<open>try\<close> block and reaches the caller with its own message. \<open>-1\<close> and \<open>abc\<close>
  fail, \<open>42\<close> gives 42.
\<close>

theorem validate_user_id_spec:
  "validate_user_id s =
     (if s = [] then Inl (ValidationError ''User ID is required'')
      else case py_int s of
             Inl e \<Rightarrow> Inl (ValidationError ''User ID must be a valid integer'')
           | Inr n \<Rightarrow> if n \<le> 0 then Inl (ValidationError ''User ID must be a positive integer'')
                      else Inr n)
   \<and> validate_user_id ''-1'' = Inl (ValidationError ''User ID must be a positive integer'')
   \<and> validate_user_id ''abc'' = Inl (ValidationError ''User ID must be a valid integer'')
   \<and> validate_user_id ''42'' = Inr 42"
proof -
  have gen: "validate_user_id s =
     (if s = [] then Inl (ValidationError ''User ID is required'')
      else case py_int s of
             Inl e \<Rightarrow> Inl (ValidationError ''User ID must be a valid integer'')
           | Inr n \<Rightarrow> if n \<le> 0 then Inl (ValidationError ''User ID must be a positive integer'')
                      else Inr n)"
  proof (cases "py_int s")
    case (Inl e)
    then obtain m where "e = ValueError m" using py_int_raises by blast
    with Inl show ?thesis by (simp add: validate_user_id_def)
  next
    case (Inr n)
    then show ?thesis by (simp add: validate_user_id_def)
  qed
  have ex: "validate_user_id ''-1'' = Inl (ValidationError ''User ID must be a positive integer'')
   \<and> validate_user_id ''abc'' = Inl (ValidationError ''User ID must be a valid integer'')
   \<and> validate_user_id ''42'' = Inr 42"
    by (simp add: validate_user_id_def py_int_def int_max_str_digits_def int_space_def int_sign_def
        digit_or_underscore_def re_digit_def digits_value_def)
  from gen ex show ?thesis by blast
qed

theorem validate_user_id_spec_witness:
  "validate_user_id ''007'' = Inr 7
   \<and> validate_user_id ''0'' = Inl (ValidationError ''User ID must be a positive integer'')"
  using validate_user_id_spec [of "''007''"] validate_user_id_spec [of "''0''"]
  by (simp add: py_int_def int_max_str_digits_def int_space_def int_sign_def digit_or_underscore_def re_digit_def
      digits_value_def)

lemma validate_user_id_Inr_iff:
  "validate_user_id s = Inr n \<longleftrightarrow> s \<noteq> [] \<and> py_int s = Inr n \<and> 0 < n"
proof (cases "py_int s")
  case (Inl e)
  then obtain m where "e = ValueError m" using py_int_raises by blast
  with Inl show ?thesis by (simp add: validate_user_id_def)
next
  case (Inr k)
  then show ?thesis by (auto simp: validate_user_id_def)
qed

lemma int_space_not_body: "int_space c \<Longrightarrow> \<not> digit_or_underscore c"
  by (auto simp: int_space_def digit_or_underscore_def re_digit_def Let_def)

lemma digit_not_underscore: "re_digit c \<Longrightarrow> c \<noteq> CHR ''_''"
  by (auto simp: re_digit_def)

lemma while_stops:
  assumes "list_all Q xs" "\<And>x. Q x \<Longrightarrow> \<not> P x"
  shows "takeWhile P xs = [] \<and> dropWhile P xs = xs"
  using assms by (cases xs) auto

lemma takeWhile_all_then_stop:
  "\<forall>x\<in>set xs. P x \<Longrightarrow> takeWhile P ys = [] \<Longrightarrow> takeWhile P (xs @ ys) = xs"
  by (simp add: takeWhile_append2)

lemma dropWhile_all_then_stop:
  "\<forall>x\<in>set xs. P x \<Longrightarrow> dropWhile P ys = ys \<Longrightarrow> dropWhile P (xs @ ys) = ys"
  by (simp add: dropWhile_append2)

lemma digits_no_double_underscore:
  "list_all re_digit es \<Longrightarrow> \<not> double_underscore (e # es)"
  by (induction es arbitrary: e) (auto dest: digit_not_underscore)

lemma no_double_underscore:
  "list_all re_digit ds \<Longrightarrow> list_all re_digit es \<Longrightarrow> es \<noteq> []
     \<Longrightarrow> \<not> double_underscore (ds @ CHR ''_'' # es)"
proof (induction ds)
  case Nil
  then show ?case
    using digits_no_double_underscore by (cases es) (auto dest: digit_not_underscore)
next
  case (Cons d ds)
  then show ?case by (cases ds) (auto dest: digit_not_underscore)
qed

lemma py_int_signed_grouped:
  assumes ws1: "list_all int_space ws1" and ws2: "list_all int_space ws2"
    and ds: "ds \<noteq> []" "list_all re_digit ds" and es: "es \<noteq> []" "list_all re_digit es"
    and sg: "sg = CHR ''+'' \<or> sg = CHR ''-''"
  shows "py_int (ws1 @ sg # ds @ ''_'' @ es @ ws2) =
           (if length ds + length es > int_max_str_digits
            then Inl (ValueError ''Exceeds the limit (4300 digits) for integer string conversion'')
            else Inr (if sg = CHR ''-'' then - int (digits_value (ds @ es))
                      else int (digits_value (ds @ es))))"
proof -
  let ?body = "ds @ CHR ''_'' # es"
  have nsp: "\<not> int_space sg" using sg by (auto simp: int_space_def)
  have lead: "dropWhile int_space (ws1 @ sg # ds @ ''_'' @ es @ ws2) = sg # ?body @ ws2"
    using ws1 nsp by (simp add: dropWhile_append2 list_all_iff)
  have sign: "int_sign (sg # ?body @ ws2) = (sg = CHR ''-'', ?body @ ws2)"
    using sg by (auto simp: int_sign_def)
  have allb: "\<forall>x\<in>set ?body. digit_or_underscore x"
    using ds es by (auto simp: list_all_iff digit_or_underscore_def)
  have stop: "takeWhile digit_or_underscore ws2 = [] \<and> dropWhile digit_or_underscore ws2 = ws2"
    using while_stops [OF ws2] int_space_not_body by blast
  have tw: "takeWhile digit_or_underscore (?body @ ws2) = ?body"
    using takeWhile_all_then_stop [OF allb] stop by blast
  have dw: "dropWhile digit_or_underscore (?body @ ws2) = ws2"
    using dropWhile_all_then_stop [OF allb] stop by blast
  have tail: "dropWhile int_space ws2 = []" using ws2 by (simp add: list_all_iff)
  have hd: "hd ?body \<noteq> CHR ''_''" using ds by (cases ds) (auto dest: digit_not_underscore)
  have lst: "last ?body \<noteq> CHR ''_''"
    using es by (auto simp: list_all_iff dest!: digit_not_underscore last_in_set)
  have dbl: "\<not> double_underscore ?body" using no_double_underscore ds es by blast
  have flt: "filter re_digit ?body = ds @ es"
    using ds es by (simp add: list_all_iff re_digit_def)
  have nonempty: "?body \<noteq> []" by simp
  show ?thesis
    unfolding py_int_def lead sign Let_def prod.case tw dw tail flt
    using hd lst dbl nonempty by simp
qed

text \<open>
  C10, as the code has it: \<open>validate_user_id\<close> accepts exactly the nonempty strings
  that \<open>int\<close> parses to a positive integer, and returns that integer. The strings need
  not be plain runs of digits: whitespace on both sides, a leading \<open>+\<close> and an
  underscore between two digits are accepted, as long as the digits are no more than
  the 4300 that \<open>int\<close> reads; beyond that the string is refused as not a valid integer.
  With a leading \<open>-\<close> the same string parses too, to a negative value, and is then
  refused as not positive. \<open> +4_2 \<close> gives 42.
\<close>

theorem validate_user_id_int_syntax:
  "(validate_user_id s = Inr n \<longleftrightarrow> s \<noteq> [] \<and> py_int s = Inr n \<and> 0 < n)
   \<and> (list_all int_space ws1 \<and> list_all int_space ws2 \<and> ds \<noteq> [] \<and> list_all re_digit ds
        \<and> es \<noteq> [] \<and> list_all re_digit es \<and> 0 < digits_value (ds @ es)
        \<and> length ds + length es \<le> 4300
      \<longrightarrow> validate_user_id (ws1 @ ''+'' @ ds @ ''_'' @ es @ ws2)
            = Inr (int (digits_value (ds @ es)))
        \<and> py_int (ws1 @ ''-'' @ ds @ ''_'' @ es @ ws2) = Inr (- int (digits_value (ds @ es)))
        \<and> validate_user_id (ws1 @ ''-'' @ ds @ ''_'' @ es @ ws2)
            = Inl (ValidationError ''User ID must be a positive integer''))
   \<and> (list_all int_space ws1 \<and> list_all int_space ws2 \<and> ds \<noteq> [] \<and> list_all re_digit ds
        \<and> es \<noteq> [] \<and> list_all re_digit es \<and> 4300 < length ds + length es
      \<longrightarrow> validate_user_id (ws1 @ ''+'' @ ds @ ''_'' @ es @ ws2)
            = Inl (ValidationError ''User ID must be a valid integer''))
   \<and> validate_user_id '' +4_2 '' = Inr 42"
proof -
  have ex: "validate_user_id '' +4_2 '' = Inr 42"
    by (simp add: validate_user_id_def py_int_def int_max_str_digits_def int_space_def
        int_sign_def digit_or_underscore_def re_digit_def digits_value_def)
  have fam: "validate_user_id (ws1 @ ''+'' @ ds @ ''_'' @ es @ ws2)
            = Inr (int (digits_value (ds @ es)))
        \<and> py_int (ws1 @ ''-'' @ ds @ ''_'' @ es @ ws2) = Inr (- int (digits_value (ds @ es)))
        \<and> validate_user_id (ws1 @ ''-'' @ ds @ ''_'' @ es @ ws2)
            = Inl (ValidationError ''User ID must be a positive integer'')"
    if h: "list_all int_space ws1" "list_all int_space ws2" "ds \<noteq> []" "list_all re_digit ds"
        "es \<noteq> []" "list_all re_digit es" "0 < digits_value (ds @ es)"
        "length ds + length es \<le> 4300"
  proof -
    have p: "py_int (ws1 @ ''+'' @ ds @ ''_'' @ es @ ws2) = Inr (int (digits_value (ds @ es)))"
      using py_int_signed_grouped [OF h(1) h(2) h(3) h(4) h(5) h(6), of "CHR ''+''"] h(8)
      by (simp add: int_max_str_digits_def)
    have m: "py_int (ws1 @ ''-'' @ ds @ ''_'' @ es @ ws2) = Inr (- int (digits_value (ds @ es)))"
      using py_int_signed_grouped [OF h(1) h(2) h(3) h(4) h(5) h(6), of "CHR ''-''"] h(8)
      by (simp add: int_max_str_digits_def)
    have "validate_user_id (ws1 @ ''+'' @ ds @ ''_'' @ es @ ws2)
            = Inr (int (digits_value (ds @ es)))"
      using p h(7) by (simp add: validate_user_id_Inr_iff)
    moreover have "validate_user_id (ws1 @ ''-'' @ ds @ ''_'' @ es @ ws2)
            = Inl (ValidationError ''User ID must be a positive integer'')"
      using m by (simp add: validate_user_id_def)
    ultimately show ?thesis using m by blast
  qed
  have lim: "validate_user_id (ws1 @ ''+'' @ ds @ ''_'' @ es @ ws2)
            = Inl (ValidationError ''User ID must be a valid integer'')"
    if h: "list_all int_space ws1" "list_all int_space ws2" "ds \<noteq> []" "list_all re_digit ds"
        "es \<noteq> []" "list_all re_digit es" "4300 < length ds + length es"
  proof -
    have "py_int (ws1 @ ''+'' @ ds @ ''_'' @ es @ ws2)
            = Inl (ValueError ''Exceeds the limit (4300 digits) for integer string conversion'')"
      using py_int_signed_grouped [OF h(1) h(2) h(3) h(4) h(5) h(6), of "CHR ''+''"] h(7)
      by (simp add: int_max_str_digits_def)
    then show ?thesis by (simp add: validate_user_id_def)
  qed
  show ?thesis using validate_user_id_Inr_iff ex fam lim by blast
qed

theorem validate_user_id_int_syntax_witness:
  "validate_user_id [CHR 0x09, CHR ''+'', CHR ''1'', CHR ''2'', CHR ''_'', CHR ''3'', CHR ''4'',
      CHR ''5'', CHR 0x0A] = Inr 12345
   \<and> validate_user_id [CHR 0x09, CHR ''-'', CHR ''1'', CHR ''2'', CHR ''_'', CHR ''3'', CHR ''4'',
      CHR ''5'', CHR 0x0A] = Inl (ValidationError ''User ID must be a positive integer'')"
  using validate_user_id_int_syntax [of _ _ "[CHR 0x09]" "[CHR 0x0A]" "''12''" "''345''"]
  by (simp add: int_space_def re_digit_def digits_value_def)

text \<open>
  C10, as the specification states it, fails: \<open>int\<close> parses \<open>-1\<close> and \<open>0\<close>, and
  \<open>validate_user_id\<close> accepts neither.
\<close>

theorem validate_user_id_minus_counterexample:
  "py_int ''-1'' = Inr (- 1)
   \<and> validate_user_id ''-1'' = Inl (ValidationError ''User ID must be a positive integer'')
   \<and> py_int ''0'' = Inr 0
   \<and> validate_user_id ''0'' = Inl (ValidationError ''User ID must be a positive integer'')"
  by (simp add: validate_user_id_def py_int_def int_max_str_digits_def int_space_def int_sign_def
      digit_or_underscore_def re_digit_def digits_value_def)

section \<open>Responses\<close>

lemma row_dict_public_keys:
  "map fst (row_dict_public r) = [''id'', ''name'', ''email'', ''created_at'', ''updated_at'']"
  by (simp add: row_dict_public_def)

lemma create_user_keys:
  "create_user E db n e p = Inr (u, db') \<Longrightarrow> map fst u = [''id'', ''name'', ''email'', ''created_at'']"
  by (auto simp: create_user_def Let_def split: sum.splits exn.splits prod.splits)

lemma authenticate_user_keys:
  "authenticate_user E db e p = Inr (Some u)
     \<Longrightarrow> map fst u = [''id'', ''name'', ''email'', ''created_at'']"
  by (auto simp: authenticate_user_def split: sum.splits option.splits if_splits)

lemma get_all_users_keys:
  "get_all_users E db = Inr us \<Longrightarrow> u \<in> set us
     \<Longrightarrow> map fst u = [''id'', ''name'', ''email'', ''created_at'', ''updated_at'']"
  by (auto simp: get_all_users_def row_dict_public_keys split: sum.splits)

lemma search_users_by_name_keys:
  "search_users_by_name E db t = Inr us \<Longrightarrow> u \<in> set us
     \<Longrightarrow> map fst u = [''id'', ''name'', ''email'', ''created_at'', ''updated_at'']"
  by (auto simp: search_users_by_name_def row_dict_public_keys split: sum.splits)


lemma envelope_get_all:
  "400 \<le> snd (app_get_all_users E db) \<Longrightarrow>
     \<exists>m. fst (app_get_all_users E db) = PyDict [(''error'', PyStr m), (''status'', PyStr ''error'')]"
  by (auto simp: app_get_all_users_def create_error_response_def create_success_response_def
      split: sum.splits)

lemma envelope_get_user:
  "400 \<le> snd (app_get_user E db uid) \<Longrightarrow>
     \<exists>m. fst (app_get_user E db uid) = PyDict [(''error'', PyStr m), (''status'', PyStr ''error'')]"
  by (auto simp: app_get_user_def Let_def create_error_response_def create_success_response_def
      split: sum.splits option.splits exn.splits)

lemma envelope_create:
  "400 \<le> snd (fst (app_create_user E db req)) \<Longrightarrow>
     \<exists>m. fst (fst (app_create_user E db req))
           = PyDict [(''error'', PyStr m), (''status'', PyStr ''error'')]"
  by (auto simp: app_create_user_def Let_def create_error_response_def create_success_response_def
      split: sum.splits exn.splits prod.splits)

lemma envelope_update:
  "400 \<le> snd (fst (app_update_user E db uid req)) \<Longrightarrow>
     \<exists>m. fst (fst (app_update_user E db uid req))
           = PyDict [(''error'', PyStr m), (''status'', PyStr ''error'')]"
  by (auto simp: app_update_user_def Let_def create_error_response_def create_success_response_def
      split: sum.splits exn.splits prod.splits option.splits)

lemma envelope_delete:
  "400 \<le> snd (fst (app_delete_user E db uid)) \<Longrightarrow>
     \<exists>m. fst (fst (app_delete_user E db uid))
           = PyDict [(''error'', PyStr m), (''status'', PyStr ''error'')]"
  by (auto simp: app_delete_user_def Let_def create_error_response_def create_success_response_def
      split: sum.splits exn.splits prod.splits)

lemma envelope_search:
  "400 \<le> snd (search_users E db q) \<Longrightarrow>
     \<exists>m. fst (search_users E db q) = PyDict [(''error'', PyStr m), (''status'', PyStr ''error'')]"
  by (auto simp: search_users_def Let_def create_error_response_def create_success_response_def
      split: sum.splits exn.splits option.splits if_splits)

lemma envelope_login:
  "400 \<le> snd (login E db req) \<Longrightarrow>
     \<exists>m. fst (login E db req) = PyDict [(''error'', PyStr m), (''status'', PyStr ''error'')]"
  by (auto simp: login_def Let_def create_error_response_def create_success_response_def
      split: sum.splits exn.splits option.splits prod.splits)

lemma clean_get_all:
  "list_all (\<lambda>u. \<not> has_key ''password_hash'' u) (response_records (fst (app_get_all_users E db)))"
  by (auto simp: app_get_all_users_def create_error_response_def create_success_response_def response_records_def list_all_iff
      dest: get_all_users_keys split: sum.splits)

lemma clean_get_user:
  "list_all (\<lambda>u. \<not> has_key ''password_hash'' u) (response_records (fst (app_get_user E db uid)))"
  by (auto simp: app_get_user_def Let_def create_error_response_def create_success_response_def response_records_def dict_pop_def
      split: sum.splits option.splits exn.splits)

lemma clean_create:
  "list_all (\<lambda>u. \<not> has_key ''password_hash'' u)
     (response_records (fst (fst (app_create_user E db req))))"
  by (auto simp: app_create_user_def Let_def create_error_response_def create_success_response_def response_records_def
      dest: create_user_keys split: sum.splits exn.splits prod.splits)

lemma clean_update:
  "list_all (\<lambda>u. \<not> has_key ''password_hash'' u)
     (response_records (fst (fst (app_update_user E db uid req))))"
  by (auto simp: app_update_user_def Let_def create_error_response_def create_success_response_def response_records_def dict_pop_def
      split: sum.splits exn.splits prod.splits option.splits)

lemma clean_delete:
  "list_all (\<lambda>u. \<not> has_key ''password_hash'' u)
     (response_records (fst (fst (app_delete_user E db uid))))"
  by (auto simp: app_delete_user_def Let_def create_error_response_def create_success_response_def response_records_def
      split: sum.splits exn.splits prod.splits)

lemma clean_search:
  "list_all (\<lambda>u. \<not> has_key ''password_hash'' u) (response_records (fst (search_users E db q)))"
  by (auto simp: search_users_def Let_def create_error_response_def create_success_response_def response_records_def list_all_iff
      dest: search_users_by_name_keys split: sum.splits exn.splits option.splits if_splits)

lemma clean_login:
  "list_all (\<lambda>u. \<not> has_key ''password_hash'' u) (response_records (fst (login E db req)))"
  by (auto simp: login_def Let_def create_error_response_def create_success_response_def response_records_def
      dest: authenticate_user_keys split: sum.splits exn.splits option.splits prod.splits)


lemma serve_error_envelope:
  assumes "serve E db rq = (resp, db')" and "400 \<le> snd resp"
  shows "\<exists>m. fst resp = PyDict [(''error'', PyStr m), (''status'', PyStr ''error'')]"
proof (cases rq)
  case GET_root
  with assms show ?thesis by (auto simp: health_check_def)
next
  case GET_users
  with assms envelope_get_all [of E db] show ?thesis by auto
next
  case (GET_user uid)
  with assms envelope_get_user [of E db uid] show ?thesis by auto
next
  case (POST_users req)
  with assms envelope_create [of E db req] show ?thesis by auto
next
  case (PUT_user uid req)
  with assms envelope_update [of E db uid req] show ?thesis by auto
next
  case (DELETE_user uid)
  with assms envelope_delete [of E db uid] show ?thesis by auto
next
  case (GET_search q)
  with assms envelope_search [of E db q] show ?thesis by auto
next
  case (POST_login req)
  with assms envelope_login [of E db req] show ?thesis by auto
next
  case No_route
  with assms show ?thesis by (auto simp: not_found_def create_error_response_def)
next
  case Wrong_method
  with assms show ?thesis by (auto simp: method_not_allowed_def create_error_response_def)
next
  case Uncaught
  with assms show ?thesis by (auto simp: internal_error_def create_error_response_def)
qed

text \<open>
  C4, as the code has it: every response with a status from 400 on, whichever route or
  error handler produced it, has the body \<open>{error: ..., status: "error"}\<close>. The
  description stands under the key \<open>error\<close>; the body has no key \<open>message\<close>.
\<close>

theorem error_envelope_uses_error_key:
  assumes "serve E db rq = (resp, db')" and "400 \<le> snd resp"
  shows "(\<exists>m. fst resp = PyDict [(''error'', PyStr m), (''status'', PyStr ''error'')])
         \<and> \<not> has_key ''message'' (fst resp)"
proof -
  from serve_error_envelope [OF assms] obtain m where
    "fst resp = PyDict [(''error'', PyStr m), (''status'', PyStr ''error'')]" ..
  then show ?thesis by simp
qed

theorem error_envelope_uses_error_key_witness:
  "serve demo_env sample_store (GET_user ''999'')
     = ((PyDict [(''error'', PyStr ''User not found''), (''status'', PyStr ''error'')], 404),
        sample_store)
   \<and> \<not> has_key ''message'' (fst (fst (serve demo_env sample_store (GET_user ''999''))))"
proof -
  have ev: "serve demo_env sample_store (GET_user ''999'')
     = ((PyDict [(''error'', PyStr ''User not found''), (''status'', PyStr ''error'')], 404),
        sample_store)"
    by (simp add: app_get_user_def validate_user_id_def py_int_def int_max_str_digits_def int_space_def int_sign_def
        digit_or_underscore_def re_digit_def digits_value_def get_user_by_id_def sqlite_int_def
        get_connection_def demo_env_def sample_store_def create_error_response_def)
  have "400 \<le> snd (PyDict [(''error'', PyStr ''User not found''), (''status'', PyStr ''error'')],
                      404 :: nat)" by simp
  from error_envelope_uses_error_key [OF ev this] ev show ?thesis by simp
qed

text \<open>
  C4, as the specification states it, fails: the answer to a path without a route is
  \<open>{error: "Endpoint not found", status: "error"}\<close>, which has no key \<open>message\<close>.
\<close>

theorem error_envelope_message_key_counterexample:
  "serve demo_env sample_store No_route
     = ((PyDict [(''error'', PyStr ''Endpoint not found''), (''status'', PyStr ''error'')], 404),
        sample_store)
   \<and> \<not> has_key ''message''
         (PyDict [(''error'', PyStr ''Endpoint not found''), (''status'', PyStr ''error'')])"
  by (simp add: not_found_def create_error_response_def)

lemma serve_hash_free:
  "list_all (\<lambda>u. \<not> has_key ''password_hash'' u)
     (response_records (fst (fst (serve E db rq))))"
proof (cases rq)
  case GET_root
  then show ?thesis
    by (simp add: health_check_def create_success_response_def response_records_def)
next
  case GET_users
  then show ?thesis using clean_get_all by simp
next
  case (GET_user uid)
  then show ?thesis using clean_get_user by simp
next
  case (POST_users req)
  then show ?thesis using clean_create by simp
next
  case (PUT_user uid req)
  then show ?thesis using clean_update by simp
next
  case (DELETE_user uid)
  then show ?thesis using clean_delete by simp
next
  case (GET_search q)
  then show ?thesis using clean_search by simp
next
  case (POST_login req)
  then show ?thesis using clean_login by simp
next
  case No_route
  then show ?thesis by (simp add: not_found_def create_error_response_def response_records_def)
next
  case Wrong_method
  then show ?thesis
    by (simp add: method_not_allowed_def create_error_response_def response_records_def)
next
  case Uncaught
  then show ?thesis
    by (simp add: internal_error_def create_error_response_def response_records_def)
qed

text \<open>
  C1: whatever the request, the table and the environment, no user record in the body
  of a success response (a status below 400) has the key \<open>password_hash\<close>. This covers
  create, list, get by id, update, search and login, which are the routes of \<open>serve\<close>
  that put user records in the body.
\<close>

theorem no_password_hash_in_success_response:
  assumes "serve E db rq = (resp, db')" and "snd resp < 400"
  shows "list_all (\<lambda>u. \<not> has_key ''password_hash'' u) (response_records (fst resp))"
  using serve_hash_free [of E db rq] assms by simp

theorem no_password_hash_in_success_response_witness:
  "serve demo_env sample_store (GET_user ''2'')
     = ((create_success_response
           (PyDict [(''id'', PyInt 2), (''name'', PyStr ''Jane Smith''),
                    (''email'', PyStr ''jane@example.com''),
                    (''created_at'', PyStr ''2024-04-01 09:00:00''),
                    (''updated_at'', PyStr ''2024-04-01 09:00:00'')])
           ''User retrieved successfully'', 200), sample_store)
   \<and> response_records (create_success_response
           (PyDict [(''id'', PyInt 2), (''name'', PyStr ''Jane Smith''),
                    (''email'', PyStr ''jane@example.com''),
                    (''created_at'', PyStr ''2024-04-01 09:00:00''),
                    (''updated_at'', PyStr ''2024-04-01 09:00:00'')])
           ''User retrieved successfully'')
       = [PyDict [(''id'', PyInt 2), (''name'', PyStr ''Jane Smith''),
                  (''email'', PyStr ''jane@example.com''),
                  (''created_at'', PyStr ''2024-04-01 09:00:00''),
                  (''updated_at'', PyStr ''2024-04-01 09:00:00'')]]
   \<and> list_all (\<lambda>u. \<not> has_key ''password_hash'' u)
        (response_records (create_success_response
           (PyDict [(''id'', PyInt 2), (''name'', PyStr ''Jane Smith''),
                    (''email'', PyStr ''jane@example.com''),
                    (''created_at'', PyStr ''2024-04-01 09:00:00''),
                    (''updated_at'', PyStr ''2024-04-01 09:00:00'')])
           ''User retrieved successfully''))"
proof -
  have ev: "serve demo_env sample_store (GET_user ''2'')
     = ((create_success_response
           (PyDict [(''id'', PyInt 2), (''name'', PyStr ''Jane Smith''),
                    (''email'', PyStr ''jane@example.com''),
                    (''created_at'', PyStr ''2024-04-01 09:00:00''),
                    (''updated_at'', PyStr ''2024-04-01 09:00:00'')])
           ''User retrieved successfully'', 200), sample_store)"
    by (simp add: app_get_user_def validate_user_id_def py_int_def int_max_str_digits_def int_space_def int_sign_def
        digit_or_underscore_def re_digit_def digits_value_def get_user_by_id_def sqlite_int_def
        get_connection_def demo_env_def sample_store_def row_dict_def dict_pop_def)
  have recs: "response_records (create_success_response
           (PyDict [(''id'', PyInt 2), (''name'', PyStr ''Jane Smith''),
                    (''email'', PyStr ''jane@example.com''),
                    (''created_at'', PyStr ''2024-04-01 09:00:00''),
                    (''updated_at'', PyStr ''2024-04-01 09:00:00'')])
           ''User retrieved successfully'')
       = [PyDict [(''id'', PyInt 2), (''name'', PyStr ''Jane Smith''),
                  (''email'', PyStr ''jane@example.com''),
                  (''created_at'', PyStr ''2024-04-01 09:00:00''),
                  (''updated_at'', PyStr ''2024-04-01 09:00:00'')]]"
    by (simp add: response_records_def create_success_response_def)
  have "list_all (\<lambda>u. \<not> has_key ''password_hash'' u)
        (response_records (fst (create_success_response
           (PyDict [(''id'', PyInt 2), (''name'', PyStr ''Jane Smith''),
                    (''email'', PyStr ''jane@example.com''),
                    (''created_at'', PyStr ''2024-04-01 09:00:00''),
                    (''updated_at'', PyStr ''2024-04-01 09:00:00'')])
           ''User retrieved successfully'', 200 :: nat)))"
    by (rule no_password_hash_in_success_response [OF ev]) simp
  then show ?thesis using ev recs by (simp only: fst_conv simp_thms)
qed

section \<open>Authentication\<close>




section \<open>Duplicate emails and integrity errors\<close>

lemma hash_password_hashed: "hashpw E p = Inr h \<Longrightarrow> hash_password E p = Inr h"
  by (simp add: hash_password_def)

lemma create_user_duplicate:
  assumes "sqlite_fault E = None" "hashpw E p = Inr h"
    and "list_ex (\<lambda>r. u_email r = e) (users db)"
  shows "create_user E db (Some n) (Some e) p = Inl (ValueError ''Email already exists'')"
  using assms
  by (simp add: create_user_def get_connection_def hash_password_def sql_insert_user_def)

lemma create_user_fresh:
  assumes "sqlite_fault E = None" "hashpw E p = Inr h"
    and "\<not> list_ex (\<lambda>r. u_email r = e) (users db)"
  shows "create_user E db (Some n) (Some e) p =
           Inr ([(''id'', PyInt (next_rowid db)), (''name'', PyStr n), (''email'', PyStr e),
                 (''created_at'', PyStr (now_isoformat E))],
                db\<lparr>users := users db @
                      [\<lparr>u_id = next_rowid db, u_name = n, u_email = e,
                        u_password_hash = h,
                        u_created_at = current_timestamp E,
                        u_updated_at = current_timestamp E\<rparr>],
                    sequence := next_rowid db\<rparr>)"
  using assms
  by (simp add: create_user_def get_connection_def hash_password_def sql_insert_user_def
      Let_def)

lemma create_user_unhashed:
  assumes "sqlite_fault E = None" "hashpw E p = Inl m"
  shows "create_user E db n e p = Inl (ValueError m)"
  using assms by (simp add: create_user_def get_connection_def hash_password_def)

lemma create_user_integrity:
  assumes "sqlite_fault E = None" "hash_password E password = Inr h"
    and "sql_insert_user E db name email (Some h) = Inl (IntegrityError m)"
  shows "create_user E db name email password = Inl (ValueError ''Email already exists'')"
  using assms by (simp add: create_user_def get_connection_def)

lemma update_user_integrity:
  assumes "sqlite_fault E = None" "\<not> (name = None \<and> email = None)"
    and "sql_update_user E db uid name email = Inl (IntegrityError m)"
  shows "update_user E db uid name email = Inl (ValueError ''Email already exists'')"
  using assms by (auto simp: update_user_def get_connection_def)

lemma update_user_duplicate:
  assumes "sqlite_fault E = None" "- (2 ^ 63) \<le> uid" "uid < 2 ^ 63"
    and "list_ex (\<lambda>r. u_id r = uid) (users db)"
    and "list_ex (\<lambda>r. u_id r \<noteq> uid \<and> u_email r = e) (users db)"
  shows "update_user E db uid name (Some e) = Inl (ValueError ''Email already exists'')"
proof -
  have "filter (\<lambda>r. u_id r = uid) (users db) \<noteq> []"
    using assms(4) by (auto simp: list_ex_iff filter_empty_conv)
  then have "sql_update_user E db uid name (Some e)
               = Inl (IntegrityError ''UNIQUE constraint failed: users.email'')"
    using assms(2,3,5) by (simp add: sql_update_user_def sqlite_int_def)
  then show ?thesis using update_user_integrity assms(1) by blast
qed

lemma create_user_fault:
  "sqlite_fault E = Some m \<Longrightarrow> create_user E db n e p = Inl (OperationalError m)"
  by (simp add: create_user_def get_connection_def)

lemma app_create_user_conflict:
  assumes "is_json req" "json req = Some d" "validate_create_user_data E d = Inr v"
    and "create_user E db (Some (cd_name v)) (Some (cd_email v)) (cd_password v)
           = Inl (ValueError m)"
  shows "app_create_user E db req = (create_error_response m 409, db)"
  using assms by (simp add: app_create_user_def get_json_def)

lemma app_create_user_created:
  assumes "is_json req" "json req = Some d" "validate_create_user_data E d = Inr v"
    and "create_user E db (Some (cd_name v)) (Some (cd_email v)) (cd_password v) = Inr (u, db1)"
  shows "app_create_user E db req =
           ((create_success_response (PyDict u) ''User created successfully'', 201), db1)"
  using assms by (simp add: app_create_user_def get_json_def)

lemma validate_email_case:
  assumes "s1 \<noteq> []" "s2 \<noteq> []" "py_lower (py_strip s2) = py_lower (py_strip s1)"
    and "lib_validate_email E2 = lib_validate_email E1"
  shows "validate_email E2 (PyStr s2) = validate_email E1 (PyStr s1)"
  using assms by (simp add: validate_email_def)

text \<open>
  What the code does for a duplicate email when both passwords are hashed: the first
  of two validated requests with the same normalized email, new to the table, is
  answered 201, and on the table it leaves the second raises
  \<open>ValueError("Email already exists")\<close> and is answered 409.
\<close>

lemma duplicate_email_conflict_when_hashed:
  assumes nf: "sqlite_fault E1 = None" "sqlite_fault E2 = None"
    and r1: "is_json req1" "json req1 = Some d1" "validate_create_user_data E1 d1 = Inr v1"
    and r2: "is_json req2" "json req2 = Some d2" "validate_create_user_data E2 d2 = Inr v2"
    and hashed: "hashpw E1 (cd_password v1) = Inr h1" "hashpw E2 (cd_password v2) = Inr h2"
    and same: "cd_email v2 = cd_email v1"
    and fresh: "\<not> list_ex (\<lambda>r. u_email r = cd_email v1) (users db)"
  shows "\<exists>body db1.
            app_create_user E1 db req1 = ((body, 201), db1)
          \<and> create_user E2 db1 (Some (cd_name v2)) (Some (cd_email v2)) (cd_password v2)
              = Inl (ValueError ''Email already exists'')
          \<and> app_create_user E2 db1 req2
              = ((PyDict [(''error'', PyStr ''Email already exists''),
                          (''status'', PyStr ''error'')], 409), db1)"
proof -
  let ?row = "\<lparr>u_id = next_rowid db, u_name = cd_name v1, u_email = cd_email v1,
                u_password_hash = h1,
                u_created_at = current_timestamp E1, u_updated_at = current_timestamp E1\<rparr>"
  let ?db1 = "db\<lparr>users := users db @ [?row], sequence := next_rowid db\<rparr>"
  let ?u = "[(''id'', PyInt (next_rowid db)), (''name'', PyStr (cd_name v1)),
             (''email'', PyStr (cd_email v1)), (''created_at'', PyStr (now_isoformat E1))]"
  have c1: "create_user E1 db (Some (cd_name v1)) (Some (cd_email v1)) (cd_password v1)
              = Inr (?u, ?db1)"
    using create_user_fresh [OF nf(1) hashed(1) fresh] .
  have a1: "app_create_user E1 db req1 =
              ((create_success_response (PyDict ?u) ''User created successfully'', 201), ?db1)"
    using app_create_user_created [OF r1 c1] .
  have present: "list_ex (\<lambda>r. u_email r = cd_email v2) (users ?db1)"
    using same by (simp add: list_ex_iff)
  have c2: "create_user E2 ?db1 (Some (cd_name v2)) (Some (cd_email v2)) (cd_password v2)
              = Inl (ValueError ''Email already exists'')"
    using create_user_duplicate [OF nf(2) hashed(2) present] .
  have a2: "app_create_user E2 ?db1 req2
              = ((PyDict [(''error'', PyStr ''Email already exists''),
                          (''status'', PyStr ''error'')], 409), ?db1)"
    using app_create_user_conflict [OF r2 c2] by (simp add: create_error_response_def)
  show ?thesis using a1 c2 a2 by blast
qed

text \<open>
  C3 says that of two creates with the same normalized email the first succeeds and the
  second fails with the duplicate-email error, answered 409. The code does not do this
  for every validated request: \<open>hash_password\<close> runs before the \<open>INSERT\<close>, and the
  \<open>ValueError\<close> with which the library refuses a password leaves \<open>create_user\<close> and is
  answered 409 by the branch of the view that is meant for the duplicate email. In
  \<open>bcrypt5_env\<close> a password of 73 characters passes \<open>validate_password\<close>; with it the
  create for an email that is new to the table is answered 409 and stores nothing, and
  the create for an email of the table is answered 409 with the library's text, not
  with \<open>Email already exists\<close>.
\<close>

theorem create_conflict_for_unhashed_password:
  "validate_password (PyStr ''aaaaaaaaaaaaaaaaaaaaaaaaaaaaaaaaaaaaaaaaaaaaaaaaaaaaaaaaaaaaaaaaaaaaaaaa1'') = Inr ''aaaaaaaaaaaaaaaaaaaaaaaaaaaaaaaaaaaaaaaaaaaaaaaaaaaaaaaaaaaaaaaaaaaaaaaa1''
   \<and> \<not> list_ex (\<lambda>r. u_email r = ''ann@example.com'') (users sample_store)
   \<and> app_create_user bcrypt5_env sample_store
        (json_request (PyDict [(''name'', PyStr ''Ann Lee''),
                               (''email'', PyStr ''Ann@Example.com''),
                               (''password'', PyStr ''aaaaaaaaaaaaaaaaaaaaaaaaaaaaaaaaaaaaaaaaaaaaaaaaaaaaaaaaaaaaaaaaaaaaaaaa1'')]))
       = ((PyDict [(''error'', PyStr
                      ''password cannot be longer than 72 bytes, truncate manually if necessary''),
                   (''status'', PyStr ''error'')], 409), sample_store)
   \<and> list_ex (\<lambda>r. u_email r = ''john@example.com'') (users sample_store)
   \<and> app_create_user bcrypt5_env sample_store
        (json_request (PyDict [(''name'', PyStr ''John Other''),
                               (''email'', PyStr ''John@Example.com''),
                               (''password'', PyStr ''aaaaaaaaaaaaaaaaaaaaaaaaaaaaaaaaaaaaaaaaaaaaaaaaaaaaaaaaaaaaaaaaaaaaaaaa1'')]))
       = ((PyDict [(''error'', PyStr
                      ''password cannot be longer than 72 bytes, truncate manually if necessary''),
                   (''status'', PyStr ''error'')], 409), sample_store)"
proof -
  have nf: "sqlite_fault bcrypt5_env = None" by (simp add: bcrypt5_env_def demo_env_def)
  have lib: "lib_validate_email bcrypt5_env = lib_validate_email demo_env"
    by (simp add: bcrypt5_env_def)
  have lw: "py_lower (py_strip ''Ann@Example.com'') = ''ann@example.com''"
       "py_lower (py_strip ''John@Example.com'') = ''john@example.com''"
    by (simp_all add: py_lower_def py_strip_def py_isspace_def py_lower_char_def char_of_def
        bit_Suc_0_iff)
  have nm: "validate_name (PyStr ''Ann Lee'') = Inr ''Ann Lee''"
       "validate_name (PyStr ''John Other'') = Inr ''John Other''"
    by (simp_all add: validate_name_def py_strip_def py_isspace_def name_pattern_match_def
        name_char_def ascii_letter_def)
  have pw: "validate_password (PyStr ''aaaaaaaaaaaaaaaaaaaaaaaaaaaaaaaaaaaaaaaaaaaaaaaaaaaaaaaaaaaaaaaaaaaaaaaa1'') = Inr ''aaaaaaaaaaaaaaaaaaaaaaaaaaaaaaaaaaaaaaaaaaaaaaaaaaaaaaaaaaaaaaaaaaaaaaaa1''"
    by (simp add: validate_password_def ascii_letter_def re_digit_def)
  have un: "hashpw bcrypt5_env ''aaaaaaaaaaaaaaaaaaaaaaaaaaaaaaaaaaaaaaaaaaaaaaaaaaaaaaaaaaaaaaaaaaaaaaaa1''
              = Inl ''password cannot be longer than 72 bytes, truncate manually if necessary''"
    by (simp add: bcrypt5_env_def)
  have v1: "validate_create_user_data bcrypt5_env
              (PyDict [(''name'', PyStr ''Ann Lee''), (''email'', PyStr ''Ann@Example.com''),
                       (''password'', PyStr ''aaaaaaaaaaaaaaaaaaaaaaaaaaaaaaaaaaaaaaaaaaaaaaaaaaaaaaaaaaaaaaaaaaaaaaaa1'')])
            = Inr \<lparr>cd_name = ''Ann Lee'', cd_email = ''ann@example.com'',
                   cd_password = ''aaaaaaaaaaaaaaaaaaaaaaaaaaaaaaaaaaaaaaaaaaaaaaaaaaaaaaaaaaaaaaaaaaaaaaaa1''\<rparr>"
    by (simp add: validate_create_user_data_def dict_get_def validate_email_def lw nm pw lib
        demo_env_def)
  have v2: "validate_create_user_data bcrypt5_env
              (PyDict [(''name'', PyStr ''John Other''), (''email'', PyStr ''John@Example.com''),
                       (''password'', PyStr ''aaaaaaaaaaaaaaaaaaaaaaaaaaaaaaaaaaaaaaaaaaaaaaaaaaaaaaaaaaaaaaaaaaaaaaaa1'')])
            = Inr \<lparr>cd_name = ''John Other'', cd_email = ''john@example.com'',
                   cd_password = ''aaaaaaaaaaaaaaaaaaaaaaaaaaaaaaaaaaaaaaaaaaaaaaaaaaaaaaaaaaaaaaaaaaaaaaaa1''\<rparr>"
    by (simp add: validate_create_user_data_def dict_get_def validate_email_def lw nm pw lib
        demo_env_def)
  have c: "create_user bcrypt5_env sample_store (Some n) (Some e) ''aaaaaaaaaaaaaaaaaaaaaaaaaaaaaaaaaaaaaaaaaaaaaaaaaaaaaaaaaaaaaaaaaaaaaaaa1''
             = Inl (ValueError
                 ''password cannot be longer than 72 bytes, truncate manually if necessary'')"
    for n e
    using create_user_unhashed [OF nf un] .
  have a1: "app_create_user bcrypt5_env sample_store
        (json_request (PyDict [(''name'', PyStr ''Ann Lee''),
                               (''email'', PyStr ''Ann@Example.com''),
                               (''password'', PyStr ''aaaaaaaaaaaaaaaaaaaaaaaaaaaaaaaaaaaaaaaaaaaaaaaaaaaaaaaaaaaaaaaaaaaaaaaa1'')]))
       = ((PyDict [(''error'', PyStr
                      ''password cannot be longer than 72 bytes, truncate manually if necessary''),
                   (''status'', PyStr ''error'')], 409), sample_store)"
    using app_create_user_conflict [OF _ _ v1, of "json_request _" sample_store] c
    by (simp add: json_request_def create_error_response_def)
  have a2: "app_create_user bcrypt5_env sample_store
        (json_request (PyDict [(''name'', PyStr ''John Other''),
                               (''email'', PyStr ''John@Example.com''),
                               (''password'', PyStr ''aaaaaaaaaaaaaaaaaaaaaaaaaaaaaaaaaaaaaaaaaaaaaaaaaaaaaaaaaaaaaaaaaaaaaaaa1'')]))
       = ((PyDict [(''error'', PyStr
                      ''password cannot be longer than 72 bytes, truncate manually if necessary''),
                   (''status'', PyStr ''error'')], 409), sample_store)"
    using app_create_user_conflict [OF _ _ v2, of "json_request _" sample_store] c
    by (simp add: json_request_def create_error_response_def)
  have f1: "\<not> list_ex (\<lambda>r. u_email r = ''ann@example.com'') (users sample_store)"
    by (simp add: sample_store_def)
  have f2: "list_ex (\<lambda>r. u_email r = ''john@example.com'') (users sample_store)"
    by (simp add: sample_store_def)
  from pw f1 a1 f2 a2 show ?thesis by (intro conjI)
qed

lemma app_update_user_conflict:
  assumes "validate_user_id user_id = Inr uid" "is_json req" "json req = Some d"
    and "validate_update_user_data E d = Inr (name, email)"
    and "update_user E db uid name email = Inl (ValueError m)"
  shows "app_update_user E db user_id req = (create_error_response m 409, db)"
  using assms by (simp add: app_update_user_def get_json_def)

lemma validate_update_user_data_some:
  "validate_update_user_data E d = Inr (name, email) \<Longrightarrow> \<not> (name = None \<and> email = None)"
  by (auto simp: validate_update_user_data_def
      split: pyval.splits option.splits sum.splits if_splits)

text \<open>
  C9: with a readable database, whatever \<open>IntegrityError\<close> the \<open>INSERT\<close> of
  \<open>create_user\<close> or the \<open>UPDATE\<close> of \<open>update_user\<close> raises, the function raises
  \<open>ValueError("Email already exists")\<close>, and the views answer it with 409 and that
  text. The \<open>INSERT\<close> is executed with the hash that \<open>hash_password\<close> returned. A name
  that is \<open>None\<close> violates \<open>NOT NULL\<close> on \<open>users.name\<close> and is reported as an existing
  email all the same: the message of the constraint is dropped.
\<close>

theorem integrity_error_reported_as_duplicate_email:
  assumes nf: "sqlite_fault E = None"
  shows "(\<forall>m h. hash_password E password = Inr h
              \<and> sql_insert_user E db name email (Some h) = Inl (IntegrityError m)
            \<longrightarrow> create_user E db name email password = Inl (ValueError ''Email already exists''))
       \<and> (\<forall>m. \<not> (uname = None \<and> uemail = None)
              \<and> sql_update_user E db uid uname uemail = Inl (IntegrityError m)
            \<longrightarrow> update_user E db uid uname uemail = Inl (ValueError ''Email already exists''))
       \<and> (\<forall>h. sql_insert_user E db None email (Some h)
                 = Inl (IntegrityError ''NOT NULL constraint failed: users.name''))
       \<and> (\<forall>h. hash_password E password = Inr h
            \<longrightarrow> create_user E db None email password = Inl (ValueError ''Email already exists''))
       \<and> (\<forall>m d v h. is_json req \<and> json req = Some d \<and> validate_create_user_data E d = Inr v
              \<and> hash_password E (cd_password v) = Inr h
              \<and> sql_insert_user E db (Some (cd_name v)) (Some (cd_email v)) (Some h)
                   = Inl (IntegrityError m)
            \<longrightarrow> app_create_user E db req
                  = ((PyDict [(''error'', PyStr ''Email already exists''),
                              (''status'', PyStr ''error'')], 409), db))
       \<and> (\<forall>m d n e. validate_user_id user_id = Inr uid \<and> is_json req \<and> json req = Some d
              \<and> validate_update_user_data E d = Inr (n, e)
              \<and> sql_update_user E db uid n e = Inl (IntegrityError m)
            \<longrightarrow> app_update_user E db user_id req
                  = ((PyDict [(''error'', PyStr ''Email already exists''),
                              (''status'', PyStr ''error'')], 409), db))"
proof -
  have one: "\<forall>m h. hash_password E password = Inr h
              \<and> sql_insert_user E db name email (Some h) = Inl (IntegrityError m)
            \<longrightarrow> create_user E db name email password = Inl (ValueError ''Email already exists'')"
    using create_user_integrity [OF nf] by blast
  have two: "\<forall>m. \<not> (uname = None \<and> uemail = None)
              \<and> sql_update_user E db uid uname uemail = Inl (IntegrityError m)
            \<longrightarrow> update_user E db uid uname uemail = Inl (ValueError ''Email already exists'')"
    using update_user_integrity [OF nf] by blast
  have three: "\<forall>h. sql_insert_user E db None email (Some h)
                 = Inl (IntegrityError ''NOT NULL constraint failed: users.name'')"
    by (simp add: sql_insert_user_def)
  have four: "\<forall>h. hash_password E password = Inr h
            \<longrightarrow> create_user E db None email password = Inl (ValueError ''Email already exists'')"
    using create_user_integrity [OF nf] three by blast
  have five: "\<forall>m d v h. is_json req \<and> json req = Some d \<and> validate_create_user_data E d = Inr v
              \<and> hash_password E (cd_password v) = Inr h
              \<and> sql_insert_user E db (Some (cd_name v)) (Some (cd_email v)) (Some h)
                   = Inl (IntegrityError m)
            \<longrightarrow> app_create_user E db req
                  = ((PyDict [(''error'', PyStr ''Email already exists''),
                              (''status'', PyStr ''error'')], 409), db)"
  proof (intro allI impI)
    fix m d v h
    assume h: "is_json req \<and> json req = Some d \<and> validate_create_user_data E d = Inr v
              \<and> hash_password E (cd_password v) = Inr h
              \<and> sql_insert_user E db (Some (cd_name v)) (Some (cd_email v)) (Some h)
                   = Inl (IntegrityError m)"
    then have "create_user E db (Some (cd_name v)) (Some (cd_email v)) (cd_password v)
                 = Inl (ValueError ''Email already exists'')"
      using create_user_integrity [OF nf] by blast
    with h have "app_create_user E db req
                   = (create_error_response ''Email already exists'' 409, db)"
      using app_create_user_conflict by blast
    then show "app_create_user E db req
                  = ((PyDict [(''error'', PyStr ''Email already exists''),
                              (''status'', PyStr ''error'')], 409), db)"
      by (simp add: create_error_response_def)
  qed
  have six: "\<forall>m d n e. validate_user_id user_id = Inr uid \<and> is_json req \<and> json req = Some d
              \<and> validate_update_user_data E d = Inr (n, e)
              \<and> sql_update_user E db uid n e = Inl (IntegrityError m)
            \<longrightarrow> app_update_user E db user_id req
                  = ((PyDict [(''error'', PyStr ''Email already exists''),
                              (''status'', PyStr ''error'')], 409), db)"
  proof (intro allI impI)
    fix m d n e
    assume h: "validate_user_id user_id = Inr uid \<and> is_json req \<and> json req = Some d
              \<and> validate_update_user_data E d = Inr (n, e)
              \<and> sql_update_user E db uid n e = Inl (IntegrityError m)"
    then have "\<not> (n = None \<and> e = None)" using validate_update_user_data_some by blast
    with h have "update_user E db uid n e = Inl (ValueError ''Email already exists'')"
      using update_user_integrity [OF nf] by blast
    with h have "app_update_user E db user_id req
                   = (create_error_response ''Email already exists'' 409, db)"
      using app_update_user_conflict by blast
    then show "app_update_user E db user_id req
                  = ((PyDict [(''error'', PyStr ''Email already exists''),
                              (''status'', PyStr ''error'')], 409), db)"
      by (simp add: create_error_response_def)
  qed
  from one two three four five six show ?thesis by (intro conjI)
qed

theorem integrity_error_reported_as_duplicate_email_witness:
  "\<not> list_ex (\<lambda>r. u_email r = ''new@example.com'') (users sample_store)
   \<and> create_user demo_env sample_store None (Some ''new@example.com'') ''password123''
       = Inl (ValueError ''Email already exists'')
   \<and> update_user demo_env sample_store 1 (Some ''Johnny Doe'') (Some ''jane@example.com'')
       = Inl (ValueError ''Email already exists'')"
proof -
  have nf: "sqlite_fault demo_env = None" by (simp add: demo_env_def)
  have fresh: "\<not> list_ex (\<lambda>r. u_email r = ''new@example.com'') (users sample_store)"
    by (simp add: sample_store_def)
  have hp: "hash_password demo_env ''password123'' = Inr ''$2b$12$password123''"
    by (simp add: hash_password_def demo_env_def)
  have upd: "sql_update_user demo_env sample_store 1 (Some ''Johnny Doe'')
               (Some ''jane@example.com'')
             = Inl (IntegrityError ''UNIQUE constraint failed: users.email'')"
    by (simp add: sql_update_user_def sqlite_int_def sample_store_def)
  note t = integrity_error_reported_as_duplicate_email [OF nf]
  have a: "create_user demo_env sample_store None (Some ''new@example.com'') ''password123''
       = Inl (ValueError ''Email already exists'')"
    using t [of "''password123''" sample_store None "Some ''new@example.com''"] hp
    by blast
  have b: "update_user demo_env sample_store 1 (Some ''Johnny Doe'') (Some ''jane@example.com'')
       = Inl (ValueError ''Email already exists'')"
    using t [of _ sample_store _ _ "Some ''Johnny Doe''" "Some ''jane@example.com''" 1] upd
    by simp
  from fresh a b show ?thesis by (intro conjI)
qed

section \<open>Search\<close>

lemma sql_like_percent: "sql_like ''%'' s"
  by (induction s) auto

lemma sql_like_prefix:
  assumes "\<forall>c\<in>set t. c \<noteq> CHR ''%'' \<and> c \<noteq> CHR ''_''"
  shows "sql_like (t @ ''%'') s \<longleftrightarrow> (\<exists>post. map ascii_fold s = map ascii_fold t @ post)"
  using assms
proof (induction t arbitrary: s)
  case Nil
  then show ?case using sql_like_percent by simp
next
  case (Cons p ps)
  show ?case
  proof (cases s)
    case Nil
    then show ?thesis using Cons.prems by simp
  next
    case (Cons c cs)
    have "sql_like ((p # ps) @ ''%'') (c # cs)
            \<longleftrightarrow> ascii_fold p = ascii_fold c \<and> sql_like (ps @ ''%'') cs"
      using Cons.prems by simp
    also have "\<dots> \<longleftrightarrow> ascii_fold p = ascii_fold c
                      \<and> (\<exists>post. map ascii_fold cs = map ascii_fold ps @ post)"
      using Cons.IH Cons.prems by simp
    also have "\<dots> \<longleftrightarrow> (\<exists>post. map ascii_fold (c # cs) = map ascii_fold (p # ps) @ post)"
      by auto
    finally show ?thesis using Cons by simp
  qed
qed

lemma sql_like_any_start:
  "sql_like (CHR ''%'' # q) s \<longleftrightarrow> (\<exists>pre rest. s = pre @ rest \<and> sql_like q rest)"
proof (induction s)
  case Nil
  then show ?case by (cases q) auto
next
  case (Cons c cs)
  have "sql_like (CHR ''%'' # q) (c # cs)
          \<longleftrightarrow> sql_like q (c # cs) \<or> sql_like (CHR ''%'' # q) cs"
    by simp
  also have "\<dots> \<longleftrightarrow> sql_like q (c # cs) \<or> (\<exists>pre rest. cs = pre @ rest \<and> sql_like q rest)"
    using Cons.IH by simp
  also have "\<dots> \<longleftrightarrow> (\<exists>pre rest. c # cs = pre @ rest \<and> sql_like q rest)"
  proof
    assume "sql_like q (c # cs) \<or> (\<exists>pre rest. cs = pre @ rest \<and> sql_like q rest)"
    then show "\<exists>pre rest. c # cs = pre @ rest \<and> sql_like q rest"
    proof
      assume "sql_like q (c # cs)"
      then have "c # cs = [] @ (c # cs) \<and> sql_like q (c # cs)" by simp
      then show ?thesis by blast
    next
      assume "\<exists>pre rest. cs = pre @ rest \<and> sql_like q rest"
      then obtain pre rest where "cs = pre @ rest" "sql_like q rest" by blast
      then have "c # cs = (c # pre) @ rest \<and> sql_like q rest" by simp
      then show ?thesis by blast
    qed
  next
    assume "\<exists>pre rest. c # cs = pre @ rest \<and> sql_like q rest"
    then obtain pre rest where pr: "c # cs = pre @ rest" "sql_like q rest" by blast
    show "sql_like q (c # cs) \<or> (\<exists>pre rest. cs = pre @ rest \<and> sql_like q rest)"
    proof (cases pre)
      case Nil
      with pr show ?thesis by simp
    next
      case (Cons a pre')
      with pr have "cs = pre' @ rest" by simp
      with pr(2) show ?thesis by blast
    qed
  qed
  finally show ?case .
qed

lemma sql_like_contains:
  assumes "\<forall>c\<in>set t. c \<noteq> CHR ''%'' \<and> c \<noteq> CHR ''_''"
  shows "sql_like (''%'' @ t @ ''%'') s
           \<longleftrightarrow> (\<exists>pre post. map ascii_fold s = pre @ map ascii_fold t @ post)"
proof
  assume "sql_like (''%'' @ t @ ''%'') s"
  then obtain pre rest where s: "s = pre @ rest" and "sql_like (t @ ''%'') rest"
    using sql_like_any_start [of "t @ ''%''" s] by auto
  then obtain post where "map ascii_fold rest = map ascii_fold t @ post"
    using sql_like_prefix [OF assms] by blast
  with s have "map ascii_fold s = map ascii_fold pre @ map ascii_fold t @ post" by simp
  then show "\<exists>pre post. map ascii_fold s = pre @ map ascii_fold t @ post" by blast
next
  assume "\<exists>pre post. map ascii_fold s = pre @ map ascii_fold t @ post"
  then obtain pre post where e: "map ascii_fold s = pre @ map ascii_fold t @ post" by blast
  let ?n = "length pre"
  have "map ascii_fold (drop ?n s) = drop ?n (map ascii_fold s)" by (simp add: drop_map)
  also have "\<dots> = map ascii_fold t @ post" using e by simp
  finally have "sql_like (t @ ''%'') (drop ?n s)" using sql_like_prefix [OF assms] by blast
  moreover have "s = take ?n s @ drop ?n s" by simp
  ultimately have "\<exists>pre rest. s = pre @ rest \<and> sql_like (t @ ''%'') rest" by blast
  then show "sql_like (''%'' @ t @ ''%'') s"
    using sql_like_any_start [of "t @ ''%''" s] by simp
qed

lemma name_char_not_wildcard: "name_char c \<Longrightarrow> c \<noteq> CHR ''%'' \<and> c \<noteq> CHR ''_''"
  by (auto simp: name_char_def ascii_letter_def py_isspace_def)

lemma validate_search_name_chars:
  "validate_search_name v = Inr t \<Longrightarrow> t \<noteq> [] \<and> (\<forall>c\<in>set t. name_char c)"
  by (auto simp: validate_search_name_def name_pattern_match_iff list_all_iff Let_def
      split: pyval.splits if_splits)

text \<open>
  C8: for a search term that \<open>validate_search_name\<close> returned and a readable database,
  \<open>search_users_by_name\<close> returns exactly the rows, in table order, whose name
  contains the term when the letters \<open>A\<close> to \<open>Z\<close> of both are read as \<open>a\<close> to \<open>z\<close>;
  each result has the columns id, name, email, created_at and updated_at, so no
  password hash. On the sample table \<open>john\<close> finds \<open>John Doe\<close> and \<open>Bob Johnson\<close> and
  not \<open>Jane Smith\<close>.
\<close>

theorem search_users_by_name_substring:
  assumes "validate_search_name v = Inr t" and "sqlite_fault E = None"
  shows "search_users_by_name E db t =
           Inr (map row_dict_public
                  (filter (\<lambda>r. \<exists>pre post. map ascii_fold (u_name r)
                                              = pre @ map ascii_fold t @ post)
                     (users db)))
       \<and> (\<forall>us u. search_users_by_name E db t = Inr us \<and> u \<in> set us
             \<longrightarrow> map fst u = [''id'', ''name'', ''email'', ''created_at'', ''updated_at''])
       \<and> validate_search_name (PyStr ''john'') = Inr ''john''
       \<and> search_users_by_name E sample_store ''john'' =
           Inr [[(''id'', PyInt 1), (''name'', PyStr ''John Doe''),
                 (''email'', PyStr ''john@example.com''),
                 (''created_at'', PyStr ''2024-04-01 09:00:00''),
                 (''updated_at'', PyStr ''2024-04-01 09:00:00'')],
                [(''id'', PyInt 3), (''name'', PyStr ''Bob Johnson''),
                 (''email'', PyStr ''bob@example.com''),
                 (''created_at'', PyStr ''2024-04-01 09:00:00''),
                 (''updated_at'', PyStr ''2024-04-01 09:00:00'')]]"
proof -
  have nw: "\<forall>c\<in>set t. c \<noteq> CHR ''%'' \<and> c \<noteq> CHR ''_''"
    using validate_search_name_chars [OF assms(1)] name_char_not_wildcard by blast
  have flt: "filter (\<lambda>r. sql_like (''%'' @ t @ ''%'') (u_name r)) (users db)
               = filter (\<lambda>r. \<exists>pre post. map ascii_fold (u_name r)
                                            = pre @ map ascii_fold t @ post) (users db)"
    using sql_like_contains [OF nw] by (intro filter_cong) auto
  have one: "search_users_by_name E db t =
           Inr (map row_dict_public
                  (filter (\<lambda>r. \<exists>pre post. map ascii_fold (u_name r)
                                              = pre @ map ascii_fold t @ post)
                     (users db)))"
    using assms(2) flt by (simp add: search_users_by_name_def get_connection_def)
  have two: "\<forall>us u. search_users_by_name E db t = Inr us \<and> u \<in> set us
             \<longrightarrow> map fst u = [''id'', ''name'', ''email'', ''created_at'', ''updated_at'']"
    by (auto simp: search_users_by_name_def row_dict_public_def split: sum.splits)
  have three: "search_users_by_name E sample_store ''john'' =
           Inr [[(''id'', PyInt 1), (''name'', PyStr ''John Doe''),
                 (''email'', PyStr ''john@example.com''),
                 (''created_at'', PyStr ''2024-04-01 09:00:00''),
                 (''updated_at'', PyStr ''2024-04-01 09:00:00'')],
                [(''id'', PyInt 3), (''name'', PyStr ''Bob Johnson''),
                 (''email'', PyStr ''bob@example.com''),
                 (''created_at'', PyStr ''2024-04-01 09:00:00''),
                 (''updated_at'', PyStr ''2024-04-01 09:00:00'')]]"
    using assms(2)
    by (simp add: search_users_by_name_def get_connection_def sample_store_def
        row_dict_public_def ascii_fold_def char_of_def bit_Suc_0_iff)
  have ex: "validate_search_name (PyStr ''john'') = Inr ''john''"
    by (simp add: validate_search_name_def py_strip_def py_isspace_def name_pattern_match_def
        name_char_def ascii_letter_def)
  from one two ex three show ?thesis by (intro conjI)
qed

theorem search_users_by_name_substring_witness:
  "validate_search_name (PyStr '' SMITH '') = Inr ''SMITH''
   \<and> search_users_by_name demo_env sample_store ''SMITH''
       = Inr [[(''id'', PyInt 2), (''name'', PyStr ''Jane Smith''),
               (''email'', PyStr ''jane@example.com''),
               (''created_at'', PyStr ''2024-04-01 09:00:00''),
               (''updated_at'', PyStr ''2024-04-01 09:00:00'')]]"
proof -
  have v: "validate_search_name (PyStr '' SMITH '') = Inr ''SMITH''"
    by (simp add: validate_search_name_def py_strip_def py_isspace_def name_pattern_match_def
        name_char_def ascii_letter_def)
  have nf: "sqlite_fault demo_env = None" by (simp add: demo_env_def)
  have m: "map ascii_fold ''Jane Smith'' = ''jane '' @ map ascii_fold ''SMITH'' @ ''''"
    by (simp add: ascii_fold_def char_of_def bit_Suc_0_iff)
  have n1: "\<not> (\<exists>pre post. map ascii_fold ''John Doe'' = pre @ map ascii_fold ''SMITH'' @ post)"
    using sql_like_contains [of "''SMITH''" "''John Doe''"]
    by (simp add: ascii_fold_def char_of_def bit_Suc_0_iff)
  have n3: "\<not> (\<exists>pre post. map ascii_fold ''Bob Johnson'' = pre @ map ascii_fold ''SMITH'' @ post)"
    using sql_like_contains [of "''SMITH''" "''Bob Johnson''"]
    by (simp add: ascii_fold_def char_of_def bit_Suc_0_iff)
  have y2: "\<exists>pre post. map ascii_fold ''Jane Smith'' = pre @ map ascii_fold ''SMITH'' @ post"
    using m by blast
  have "search_users_by_name demo_env sample_store ''SMITH'' =
           Inr (map row_dict_public
                  (filter (\<lambda>r. \<exists>pre post. map ascii_fold (u_name r)
                                              = pre @ map ascii_fold ''SMITH'' @ post)
                     (users sample_store)))"
    using search_users_by_name_substring [OF v nf, of sample_store] by blast
  then have "search_users_by_name demo_env sample_store ''SMITH''
       = Inr [[(''id'', PyInt 2), (''name'', PyStr ''Jane Smith''),
               (''email'', PyStr ''jane@example.com''),
               (''created_at'', PyStr ''2024-04-01 09:00:00''),
               (''updated_at'', PyStr ''2024-04-01 09:00:00'')]]"
    using n1 n3 y2 by (simp add: sample_store_def row_dict_public_def)
  with v show ?thesis by blast
qed

end
